theory Spec2Isabelle
  imports Complex_Main
begin

section \<open>Numbers and template strings\<close>

text \<open>
  A JavaScript \<^verbatim>\<open>number\<close> is modelled as a real number, and where the code can produce
  \<^verbatim>\<open>NaN\<close> from finite inputs (a quotient \<^verbatim>\<open>0/0\<close>) as a \<open>jsnum\<close>. Rounding of doubles,
  overflow and the infinities are not represented; each division below says why its
  divisor is not zero, or writes out what JavaScript returns when it is.
  Every arithmetic operation with a \<^verbatim>\<open>NaN\<close> operand is \<^verbatim>\<open>NaN\<close>, and every comparison with
  a \<^verbatim>\<open>NaN\<close> operand is false.
\<close>

datatype jsnum = NaN | Fin real

fun jplus :: "jsnum \<Rightarrow> jsnum \<Rightarrow> jsnum" where
  "jplus (Fin a) (Fin b) = Fin (a + b)"
| "jplus _ _ = NaN"

fun jminus :: "jsnum \<Rightarrow> jsnum \<Rightarrow> jsnum" where
  "jminus (Fin a) (Fin b) = Fin (a - b)"
| "jminus _ _ = NaN"

fun jtimes :: "jsnum \<Rightarrow> jsnum \<Rightarrow> jsnum" where
  "jtimes (Fin a) (Fin b) = Fin (a * b)"
| "jtimes _ _ = NaN"

fun jabs :: "jsnum \<Rightarrow> jsnum" where
  "jabs (Fin a) = Fin \<bar>a\<bar>"
| "jabs NaN = NaN"

text \<open>\<^verbatim>\<open>Math.max\<close> and \<^verbatim>\<open>Math.min\<close>: \<^verbatim>\<open>NaN\<close> if either argument is.\<close>

fun jmax :: "jsnum \<Rightarrow> jsnum \<Rightarrow> jsnum" where
  "jmax (Fin a) (Fin b) = Fin (max a b)"
| "jmax _ _ = NaN"

fun jmin :: "jsnum \<Rightarrow> jsnum \<Rightarrow> jsnum" where
  "jmin (Fin a) (Fin b) = Fin (min a b)"
| "jmin _ _ = NaN"

fun jless :: "jsnum \<Rightarrow> jsnum \<Rightarrow> bool" where
  "jless (Fin a) (Fin b) = (a < b)"
| "jless _ _ = False"

fun jle :: "jsnum \<Rightarrow> jsnum \<Rightarrow> bool" where
  "jle (Fin a) (Fin b) = (a \<le> b)"
| "jle _ _ = False"

text \<open>\<^verbatim>\<open>x || d\<close> on numbers: \<open>d\<close> when \<open>x\<close> is \<open>0\<close> or \<^verbatim>\<open>NaN\<close>.\<close>

definition orDefault :: "real \<Rightarrow> real \<Rightarrow> real" where
  "orDefault x d = (if x = 0 then d else x)"

fun jorDefault :: "jsnum \<Rightarrow> real \<Rightarrow> real" where
  "jorDefault NaN d = d"
| "jorDefault (Fin x) d = orDefault x d"

text \<open>\<^verbatim>\<open>Math.round\<close> rounds half up; \<^verbatim>\<open>Math.ceil\<close> and \<^verbatim>\<open>Math.floor\<close> return integers as numbers.\<close>

definition mathRound :: "real \<Rightarrow> real" where
  "mathRound x = of_int \<lfloor>x + 1 / 2\<rfloor>"

definition mathCeil :: "real \<Rightarrow> real" where
  "mathCeil x = of_int \<lceil>x\<rceil>"

text \<open>
  A template literal is kept as the sequence of its literal chunks and of the numbers
  interpolated into it; how JavaScript prints a number is not modelled.
\<close>

datatype frag = Txt string | Num real

type_synonym template = "frag list"

section \<open>Data model\<close>

text \<open>
  The interfaces of \<^verbatim>\<open>types/index.ts\<close> as records. Field names carry a prefix for their
  record (\<open>cfg_\<close>, \<open>md_\<close>, \<open>opt_\<close>, \<open>dec_\<close>, ...), since several interfaces share field
  names. A \<^verbatim>\<open>Date\<close> is its time value, the milliseconds since the epoch; local time is
  taken to be UTC, without daylight-saving shifts.
\<close>

type_synonym Date = int

record ItemConfig =
  cfg_itemNumber :: string
  cfg_itemDescription :: string
  cfg_productivity :: real
  cfg_shelfLife :: real
  cfg_minBatchSize :: real
  cfg_maxDaysAhead :: real
  cfg_defaultGrowthRate :: real
  cfg_isActive :: bool

record ForecastFactors =
  ff_seasonal :: real
  ff_dayOfWeek :: real
  ff_holiday :: jsnum
  ff_trend :: real
  ff_growth :: real

record DailyForecast =
  df_date :: Date
  df_baseDemand :: real
  df_adjustedDemand :: jsnum
  df_dateFactor :: jsnum
  df_confidence :: real
  df_factors :: ForecastFactors

record MultiDayDemand =
  md_totalDemand :: jsnum
  md_dailyForecasts :: "DailyForecast list"
  md_daysAhead :: real
  md_confidenceScore :: jsnum

record BatchOption =
  opt_size :: real
  opt_efficiency :: real
  opt_wasteRisk :: real
  opt_cost :: real
  opt_reasoning :: template
  opt_score :: jsnum

record BatchDecision =
  dec_recommendedBatchSize :: real
  dec_produceToday :: real
  dec_hoursNeeded :: real
  dec_reasoning :: template
  dec_options :: "BatchOption list"
  dec_selectedOption :: BatchOption
  dec_efficiencyScore :: real
  dec_wasteRiskScore :: real

section \<open>Dates\<close>

text \<open>
  The \<^verbatim>\<open>Date\<close> built-ins and the two \<^verbatim>\<open>date-fns\<close> functions the code uses, after the
  ECMAScript definitions: \<^verbatim>\<open>Day(t)\<close>, \<^verbatim>\<open>TimeWithinDay(t)\<close>, \<^verbatim>\<open>MakeDay(year, month, date)\<close>
  with its overflow of months and days, and the proleptic Gregorian calendar, computed
  by the usual era-based conversion between a day number and year, month and day.
  \<open>getDay\<close> counts from Sunday; day \<open>0\<close>, 1 January 1970, was a Thursday.
\<close>

definition msPerDay :: int where
  "msPerDay = 1000 * 60 * 60 * 24"

definition dayOf :: "Date \<Rightarrow> int" where
  "dayOf t = t div msPerDay"

definition timeWithinDay :: "Date \<Rightarrow> int" where
  "timeWithinDay t = t mod msPerDay"

definition daysFromCivil :: "int \<Rightarrow> int \<Rightarrow> int \<Rightarrow> int" where
  "daysFromCivil y m d =
     (let y1 = (if m \<le> 2 then y - 1 else y);
          era = y1 div 400;
          yoe = y1 - era * 400;
          doy = (153 * (if m > 2 then m - 3 else m + 9) + 2) div 5 + d - 1;
          doe = yoe * 365 + yoe div 4 - yoe div 100 + doy
      in era * 146097 + doe - 719468)"

definition civilFromDays :: "int \<Rightarrow> int \<times> int \<times> int" where
  "civilFromDays z =
     (let z1 = z + 719468;
          era = z1 div 146097;
          doe = z1 - era * 146097;
          yoe = (doe - doe div 1460 + doe div 36524 - doe div 146096) div 365;
          doy = doe - (365 * yoe + yoe div 4 - yoe div 100);
          mp = (5 * doy + 2) div 153;
          d = doy - (153 * mp + 2) div 5 + 1;
          m = (if mp < 10 then mp + 3 else mp - 9);
          y = yoe + era * 400
      in (if m \<le> 2 then y + 1 else y, m, d))"

definition makeDay :: "int \<Rightarrow> int \<Rightarrow> int \<Rightarrow> int" where
  "makeDay year month dt = daysFromCivil (year + month div 12) (month mod 12 + 1) 1 + dt - 1"

definition getFullYear :: "Date \<Rightarrow> int" where
  "getFullYear t = fst (civilFromDays (dayOf t))"

definition getMonth :: "Date \<Rightarrow> int" where
  "getMonth t = fst (snd (civilFromDays (dayOf t))) - 1"

definition getDate :: "Date \<Rightarrow> int" where
  "getDate t = snd (snd (civilFromDays (dayOf t)))"

definition getDay :: "Date \<Rightarrow> int" where
  "getDay t = (dayOf t + 4) mod 7"

definition newDate :: "int \<Rightarrow> int \<Rightarrow> int \<Rightarrow> Date" where
  "newDate year monthIndex dt =
     makeDay (if 0 \<le> year \<and> year \<le> 99 then 1900 + year else year) monthIndex dt * msPerDay"

definition setFullYear :: "Date \<Rightarrow> int \<Rightarrow> Date" where
  "setFullYear t year = makeDay year (getMonth t) (getDate t) * msPerDay + timeWithinDay t"

definition setDate :: "Date \<Rightarrow> int \<Rightarrow> Date" where
  "setDate t dt = makeDay (getFullYear t) (getMonth t) dt * msPerDay + timeWithinDay t"

definition addDays :: "Date \<Rightarrow> int \<Rightarrow> Date" where
  "addDays t amount = setDate t (getDate t + amount)"

definition startOfDay :: "Date \<Rightarrow> Date" where
  "startOfDay t = t - timeWithinDay t"

text \<open>The remainder operator \<^verbatim>\<open>%\<close> on integers takes the sign of the dividend.\<close>

definition jsRem :: "int \<Rightarrow> int \<Rightarrow> int" where
  "jsRem a b = (if a \<ge> 0 then a mod \<bar>b\<bar> else - ((- a) mod \<bar>b\<bar>))"

section \<open>Fiscal calendar\<close>

record FiscalDate =
  fd_fiscalYear :: int
  fd_fiscalPeriod :: int
  fd_fiscalWeek :: int
  fd_fiscalDay :: int

text \<open>
  The calendar object holds one field, \<^verbatim>\<open>fiscalYearStart\<close>; the constructor returns it.
  None of the date operations in the two conversions raises, so their \<^verbatim>\<open>catch\<close> branches
  are never entered.
\<close>

definition FiscalCalendar :: "int \<Rightarrow> int \<Rightarrow> Date" where
  "FiscalCalendar month day = newDate 2024 (month - 1) day"

definition convertToCalendarDate :: "Date \<Rightarrow> int \<Rightarrow> int \<Rightarrow> int \<Rightarrow> int \<Rightarrow> Date" where
  "convertToCalendarDate fiscalYearStart fiscalYear fiscalPeriod fiscalWeek fiscalDay =
     (let fiscalYearStartDate = setFullYear fiscalYearStart (fiscalYear - 1);
          daysFromFiscalStart =
            (fiscalPeriod - 1) * 28 + (fiscalWeek - 1) * 7 + (fiscalDay - 1);
          calendarDate = addDays fiscalYearStartDate daysFromFiscalStart
      in startOfDay calendarDate)"

definition convertToFiscalDate :: "Date \<Rightarrow> Date \<Rightarrow> FiscalDate" where
  "convertToFiscalDate thisFiscalYearStart calendarDate =
     (let date = startOfDay calendarDate;
          fiscalYear0 = getFullYear date;
          fiscalYearStart0 = setFullYear thisFiscalYearStart (fiscalYear0 - 1);
          (fiscalYear, fiscalYearStart) =
            (if date < fiscalYearStart0
             then (fiscalYear0 - 1, setFullYear fiscalYearStart0 (fiscalYear0 - 1 - 1))
             else
               let nextFiscalYearStart = setFullYear fiscalYearStart0 fiscalYear0
               in if date \<ge> nextFiscalYearStart
                  then (fiscalYear0 + 1, nextFiscalYearStart)
                  else (fiscalYear0, fiscalYearStart0));
          daysDifference = (date - fiscalYearStart) div msPerDay;
          fiscalPeriod = daysDifference div 28 + 1;
          remainingDays = jsRem daysDifference 28;
          fiscalWeek = remainingDays div 7 + 1;
          fiscalDay = jsRem remainingDays 7 + 1
      in \<lparr> fd_fiscalYear = fiscalYear + 1,
           fd_fiscalPeriod = max 1 (min 13 fiscalPeriod),
           fd_fiscalWeek = max 1 (min 4 fiscalWeek),
           fd_fiscalDay = max 1 (min 7 fiscalDay) \<rparr>)"

section \<open>Holiday engine\<close>

datatype HolidayType = Fixed | Floating | Relative

text \<open>
  An optional field (\<^verbatim>\<open>month?\<close>, \<^verbatim>\<open>day?\<close>, \<^verbatim>\<open>rule?\<close>) is an \<open>option\<close>; it is falsy when
  absent, zero or the empty string. The windows \<^verbatim>\<open>daysBefore\<close> and \<^verbatim>\<open>daysAfter\<close> are whole
  days.
\<close>

record Holiday =
  hol_id :: string
  hol_name :: string
  hol_type :: HolidayType
  hol_month :: "int option"
  hol_day :: "int option"
  hol_rule :: "string option"
  hol_daysBefore :: int
  hol_daysAfter :: int
  hol_salesMultiplier :: real
  hol_description :: string
  hol_isActive :: bool

record HolidayInstance =
  inst_holiday :: Holiday
  inst_date :: Date
  inst_year :: int

record AffectedHoliday =
  aff_holiday :: Holiday
  aff_distance :: int
  aff_impact :: jsnum

record HolidayImpact =
  imp_factor :: jsnum
  imp_affectedHolidays :: "AffectedHoliday list"
  imp_explanation :: template

text \<open>
  The rule text of a floating holiday is lower-cased and matched against
  \<^verbatim>\<open>/^(first|second|third|fourth|last)\s+(monday|...|sunday)$/\<close>. Strings are ASCII
  here; no occurrence word is a prefix of another and no weekday name starts with
  white space, so the match is: an occurrence word, at least one white-space character,
  then exactly a weekday name.
\<close>

definition toLowerCase :: "string \<Rightarrow> string" where
  "toLowerCase s =
     map (\<lambda>c. if 65 \<le> (of_char c :: nat) \<and> (of_char c :: nat) \<le> 90
              then char_of ((of_char c :: nat) + 32) else c) s"

definition isWhiteSpace :: "char \<Rightarrow> bool" where
  "isWhiteSpace c = ((of_char c :: nat) \<in> {9, 10, 11, 12, 13, 32})"

definition occurrenceWords :: "string list" where
  "occurrenceWords = [''first'', ''second'', ''third'', ''fourth'', ''last'']"

definition dayNames :: "string list" where
  "dayNames = [''sunday'', ''monday'', ''tuesday'', ''wednesday'', ''thursday'', ''friday'',
               ''saturday'']"

definition matchRule :: "string \<Rightarrow> (string \<times> string) option" where
  "matchRule rule =
     (case find (\<lambda>w. take (length w) rule = w) occurrenceWords of
        None \<Rightarrow> None
      | Some occurrence \<Rightarrow>
          let rest = drop (length occurrence) rule;
              dayName = dropWhile isWhiteSpace rest
          in if rest \<noteq> [] \<and> isWhiteSpace (hd rest) \<and> dayName \<in> set dayNames
             then Some (occurrence, dayName) else None)"

text \<open>\<^verbatim>\<open>getDayOfWeekNumber\<close>: the index in the list of day names, \<open>-1\<close> when absent.\<close>

fun indexOf :: "string list \<Rightarrow> string \<Rightarrow> int" where
  "indexOf [] x = -1"
| "indexOf (y # ys) x = (if y = x then 0 else let i = indexOf ys x in if i < 0 then -1 else i + 1)"

definition getDayOfWeekNumber :: "string \<Rightarrow> int" where
  "getDayOfWeekNumber dayName = indexOf dayNames (toLowerCase dayName)"

definition getOccurrenceNumber :: "string \<Rightarrow> int" where
  "getOccurrenceNumber occurrence =
     (if occurrence = ''first'' then 1
      else if occurrence = ''second'' then 2
      else if occurrence = ''third'' then 3
      else if occurrence = ''fourth'' then 4
      else 1)"

text \<open>
  In both functions the argument of \<^verbatim>\<open>% 7\<close> lies between 1 and 13, where the remainder
  of JavaScript is \<open>mod\<close>.
\<close>

definition getNthDayOfWeekInMonth :: "int \<Rightarrow> int \<Rightarrow> int \<Rightarrow> int \<Rightarrow> Date" where
  "getNthDayOfWeekInMonth year month dayOfWeek occurrence =
     (let firstDay = newDate year month 1;
          firstDayOfWeek = getDay firstDay;
          daysToAdd = (dayOfWeek - firstDayOfWeek + 7) mod 7 + (occurrence - 1) * 7
      in addDays firstDay daysToAdd)"

definition getLastDayOfWeekInMonth :: "int \<Rightarrow> int \<Rightarrow> int \<Rightarrow> Date" where
  "getLastDayOfWeekInMonth year month dayOfWeek =
     (let lastDay = newDate year (month + 1) 0;
          lastDayOfWeek = getDay lastDay;
          daysToSubtract = (lastDayOfWeek - dayOfWeek + 7) mod 7
      in addDays lastDay (- daysToSubtract))"

definition calculateFloatingHoliday :: "Holiday \<Rightarrow> int \<Rightarrow> Date option" where
  "calculateFloatingHoliday holiday year =
     (case (hol_rule holiday, hol_month holiday) of
        (Some ruleText, Some m) \<Rightarrow>
          if ruleText = [] \<or> m = 0 then None
          else
            let rule = toLowerCase ruleText;
                month = m - 1
            in (case matchRule rule of
                  None \<Rightarrow> None
                | Some (occurrence, dayName) \<Rightarrow>
                    let targetDayOfWeek = getDayOfWeekNumber dayName
                    in if occurrence = ''last''
                       then Some (getLastDayOfWeekInMonth year month targetDayOfWeek)
                       else Some (getNthDayOfWeekInMonth year month targetDayOfWeek
                                    (getOccurrenceNumber occurrence)))
      | _ \<Rightarrow> None)"

definition calculateRelativeHoliday :: "Holiday \<Rightarrow> int \<Rightarrow> Date option" where
  "calculateRelativeHoliday holiday year = None"

definition calculateHolidayDate :: "Holiday \<Rightarrow> int \<Rightarrow> Date option" where
  "calculateHolidayDate holiday year =
     (case hol_type holiday of
        Fixed \<Rightarrow>
          (case (hol_month holiday, hol_day holiday) of
             (Some month, Some day) \<Rightarrow>
               if month \<noteq> 0 \<and> day \<noteq> 0 then Some (newDate year (month - 1) day) else None
           | _ \<Rightarrow> None)
      | Floating \<Rightarrow> calculateFloatingHoliday holiday year
      | Relative \<Rightarrow> calculateRelativeHoliday holiday year)"

definition getHolidaysForYear :: "Holiday list \<Rightarrow> int \<Rightarrow> HolidayInstance list" where
  "getHolidaysForYear holidays year =
     List.map_filter
       (\<lambda>holiday. case calculateHolidayDate holiday year of
                     None \<Rightarrow> None
                   | Some d \<Rightarrow> Some \<lparr> inst_holiday = holiday, inst_date = d, inst_year = year \<rparr>)
       (filter hol_isActive holidays)"

text \<open>
  \<^verbatim>\<open>findNearbyHolidays\<close>. The quotient \<^verbatim>\<open>distance / maxDistance\<close> has a zero divisor only
  when \<open>daysBefore = daysAfter = 0\<close>; the date then lies in the impact zone only at
  distance \<open>0\<close>, and \<^verbatim>\<open>0 / 0\<close> is \<^verbatim>\<open>NaN\<close>.
\<close>

definition nearbyHoliday :: "Date \<Rightarrow> HolidayInstance \<Rightarrow> AffectedHoliday option" where
  "nearbyHoliday date instance =
     (let daysDifference = (date - inst_date instance) div msPerDay;
          holiday = inst_holiday instance
      in if daysDifference \<ge> - hol_daysAfter holiday \<and> daysDifference \<le> hol_daysBefore holiday
         then
           let maxDistance = max (hol_daysBefore holiday) (hol_daysAfter holiday);
               distance = \<bar>daysDifference\<bar>;
               proximityFactor =
                 (if maxDistance = 0 then NaN
                  else Fin (max 0 (1 - real_of_int distance / real_of_int maxDistance)));
               impact = jtimes (Fin (hol_salesMultiplier holiday)) proximityFactor
           in Some \<lparr> aff_holiday = holiday, aff_distance = daysDifference, aff_impact = impact \<rparr>
         else None)"

definition findNearbyHolidays :: "Date \<Rightarrow> HolidayInstance list \<Rightarrow> AffectedHoliday list" where
  "findNearbyHolidays date holidays =
     sort_key (\<lambda>a. \<bar>aff_distance a\<bar>) (List.map_filter (nearbyHoliday date) holidays)"

definition calculateCombinedImpact :: "AffectedHoliday list \<Rightarrow> jsnum" where
  "calculateCombinedImpact affectedHolidays =
     (if length affectedHolidays = 0 then Fin 1
      else
        let (combinedFactor, totalWeight) =
              foldl (\<lambda>(combinedFactor, totalWeight) a.
                       let weight = jabs (jminus (aff_impact a) (Fin 1))
                       in (jplus combinedFactor (jtimes (jminus (aff_impact a) (Fin 1)) weight),
                           jplus totalWeight weight))
                    (Fin 1, Fin 0) affectedHolidays;
            normalized =
              (case (combinedFactor, totalWeight) of
                 (Fin c, Fin w) \<Rightarrow> if w > 0 then Fin (1 + (c - 1) / sqrt w) else Fin c
               | _ \<Rightarrow> combinedFactor)
        in jmax (Fin (1 / 10)) (jmin (Fin 5) normalized))"

definition explainHoliday :: "AffectedHoliday \<Rightarrow> template" where
  "explainHoliday a =
     (let distance = aff_distance a;
          direction = (if distance < 0 then ''before'' else if distance > 0 then ''after'' else ''on'');
          days = \<bar>distance\<bar>;
          dayText = (if days = 0 then [] else if days = 1 then [Txt ''1 day'']
                     else [Num (real_of_int days), Txt '' days'']);
          impactText = (if jless (Fin (11 / 10)) (aff_impact a) then ''increased''
                        else if jless (aff_impact a) (Fin (9 / 10)) then ''decreased''
                        else ''normal'')
      in if days = 0
         then [Txt (hol_name (aff_holiday a) @ '' ('' @ impactText @ '' sales)'')]
         else dayText @
              [Txt ('' '' @ direction @ '' '' @ hol_name (aff_holiday a) @ '' ('' @ impactText
                    @ '' sales)'')])"

fun joinTemplates :: "template list \<Rightarrow> template" where
  "joinTemplates [] = []"
| "joinTemplates [t] = t"
| "joinTemplates (t # ts) = t @ [Txt '', ''] @ joinTemplates ts"

definition generateImpactExplanation :: "AffectedHoliday list \<Rightarrow> template" where
  "generateImpactExplanation affectedHolidays =
     (if length affectedHolidays = 0 then [Txt ''No holiday impact'']
      else joinTemplates (map explainHoliday affectedHolidays))"

definition mkHoliday ::
  "string \<Rightarrow> string \<Rightarrow> HolidayType \<Rightarrow> int option \<Rightarrow> int option \<Rightarrow> string option \<Rightarrow> int \<Rightarrow> int
     \<Rightarrow> real \<Rightarrow> string \<Rightarrow> bool \<Rightarrow> Holiday" where
  "mkHoliday i n t m d r b a s descr act =
     \<lparr> hol_id = i, hol_name = n, hol_type = t, hol_month = m, hol_day = d, hol_rule = r,
       hol_daysBefore = b, hol_daysAfter = a, hol_salesMultiplier = s, hol_description = descr,
       hol_isActive = act \<rparr>"

definition getDefaultHolidays :: "Holiday list" where
  "getDefaultHolidays =
     [mkHoliday ''new-years-day'' ''New Year's Day'' Fixed (Some 1) (Some 1) None 2 1 (7 / 10)
        ''New Year's Day - typically lower sales'' True,
      mkHoliday ''martin-luther-king-day'' ''Martin Luther King Jr. Day'' Floating (Some 1) None
        (Some ''third monday'') 0 0 1 ''MLK Day - normal sales'' True,
      mkHoliday ''presidents-day'' ''Presidents Day'' Floating (Some 2) None
        (Some ''third monday'') 0 0 (11 / 10) ''Presidents Day - slightly increased sales'' True,
      mkHoliday ''memorial-day'' ''Memorial Day'' Floating (Some 5) None
        (Some ''last monday'') 1 0 (13 / 10) ''Memorial Day weekend - increased sales'' True,
      mkHoliday ''independence-day'' ''Independence Day'' Fixed (Some 7) (Some 4) None 2 1
        (14 / 10) ''July 4th - significantly increased sales'' True,
      mkHoliday ''labor-day'' ''Labor Day'' Floating (Some 9) None
        (Some ''first monday'') 1 0 (12 / 10) ''Labor Day weekend - increased sales'' True,
      mkHoliday ''columbus-day'' ''Columbus Day'' Floating (Some 10) None
        (Some ''second monday'') 0 0 1 ''Columbus Day - normal sales'' False,
      mkHoliday ''halloween'' ''Halloween'' Fixed (Some 10) (Some 31) None 2 0 (12 / 10)
        ''Halloween - increased party food sales'' True,
      mkHoliday ''thanksgiving'' ''Thanksgiving'' Floating (Some 11) None
        (Some ''fourth thursday'') 3 1 (18 / 10) ''Thanksgiving - very high sales'' True,
      mkHoliday ''black-friday'' ''Black Friday'' Floating (Some 11) None
        (Some ''fourth friday'') 0 0 (8 / 10)
        ''Black Friday - reduced deli sales (people shopping)'' True,
      mkHoliday ''christmas-eve'' ''Christmas Eve'' Fixed (Some 12) (Some 24) None 2 0 (15 / 10)
        ''Christmas Eve - high party food sales'' True,
      mkHoliday ''christmas'' ''Christmas Day'' Fixed (Some 12) (Some 25) None 0 1 (3 / 10)
        ''Christmas Day - very low sales'' True,
      mkHoliday ''new-years-eve'' ''New Year's Eve'' Fixed (Some 12) (Some 31) None 1 0 (16 / 10)
        ''New Year's Eve - high party food sales'' True]"

text \<open>
  The engine object holds one field, its list of holidays; the constructor returns it.
  An empty argument list is replaced by the default holidays.
\<close>

definition HolidayEngine :: "Holiday list \<Rightarrow> Holiday list" where
  "HolidayEngine holidays = (if length holidays > 0 then holidays else getDefaultHolidays)"

definition getHolidayImpactFactor :: "Holiday list \<Rightarrow> Date \<Rightarrow> int option \<Rightarrow> HolidayImpact" where
  "getHolidayImpactFactor engine date year =
     (let targetYear = (case year of
                          Some y \<Rightarrow> if y \<noteq> 0 then y else getFullYear date
                        | None \<Rightarrow> getFullYear date);
          holidays = getHolidaysForYear engine targetYear;
          affectedHolidays = findNearbyHolidays date holidays;
          factor = calculateCombinedImpact affectedHolidays;
          explanation = generateImpactExplanation affectedHolidays
      in \<lparr> imp_factor = factor, imp_affectedHolidays = affectedHolidays,
           imp_explanation = explanation \<rparr>)"

definition removeHoliday :: "Holiday list \<Rightarrow> string \<Rightarrow> Holiday list" where
  "removeHoliday engine ident = filter (\<lambda>h. hol_id h \<noteq> ident) engine"

section \<open>Demand forecaster\<close>

record ProcessedSalesData =
  rec_itemNumber :: string
  rec_itemDescription :: string
  rec_calendarDate :: Date
  rec_fiscalDate :: FiscalDate
  rec_currentYearUnits :: real
  rec_lastYearUnits :: real
  rec_twoYearsAgoUnits :: "real option"
  rec_variance :: real
  rec_variancePercent :: real
  rec_dataSource :: string

record ForecastResult =
  fr_forecast :: jsnum
  fr_baseDemand :: real
  fr_adjustedDemand :: jsnum
  fr_confidence :: real
  fr_factors :: ForecastFactors
  fr_explanation :: string
  fr_dataPoints :: nat
  fr_targetDate :: Date

text \<open>
  The forecaster object: its holiday engine and its two factor tables
  (\<^verbatim>\<open>Record<number, number>\<close>, here maps from integers).
\<close>

record DemandForecaster =
  fc_holidayEngine :: "Holiday list"
  fc_seasonalFactors :: "int \<rightharpoonup> real"
  fc_dayOfWeekFactors :: "int \<rightharpoonup> real"

definition getDefaultSeasonalFactors :: "int \<rightharpoonup> real" where
  "getDefaultSeasonalFactors =
     map_of [(1, 8 / 10), (2, 9 / 10), (3, 1), (4, 11 / 10), (5, 12 / 10), (6, 11 / 10),
             (7, 13 / 10), (8, 12 / 10), (9, 1), (10, 11 / 10), (11, 14 / 10), (12, 13 / 10)]"

definition getDefaultDayOfWeekFactors :: "int \<rightharpoonup> real" where
  "getDefaultDayOfWeekFactors =
     map_of [(0, 7 / 10), (1, 9 / 10), (2, 1), (3, 11 / 10), (4, 12 / 10), (5, 14 / 10),
             (6, 11 / 10)]"

definition newDemandForecaster :: "Holiday list \<Rightarrow> DemandForecaster" where
  "newDemandForecaster holidays =
     \<lparr> fc_holidayEngine = HolidayEngine holidays,
       fc_seasonalFactors = getDefaultSeasonalFactors,
       fc_dayOfWeekFactors = getDefaultDayOfWeekFactors \<rparr>"

text \<open>
  \<^verbatim>\<open>Array.prototype.sort\<close> is stable, as \<open>sort_key\<close> is; the comparator
  \<^verbatim>\<open>b.calendarDate.getTime() - a.calendarDate.getTime()\<close> sorts by descending time.
\<close>

definition sortByDateDesc :: "ProcessedSalesData list \<Rightarrow> ProcessedSalesData list" where
  "sortByDateDesc xs = sort_key (\<lambda>d. - rec_calendarDate d) xs"

definition sortByDateAsc :: "ProcessedSalesData list \<Rightarrow> ProcessedSalesData list" where
  "sortByDateAsc xs = sort_key rec_calendarDate xs"

definition getSameDayOfWeekData ::
  "ProcessedSalesData list \<Rightarrow> Date \<Rightarrow> ProcessedSalesData list" where
  "getSameDayOfWeekData itemData targetDate =
     (let targetDayOfWeek = getDay targetDate
      in take 8 (sortByDateDesc
                   (filter (\<lambda>d. getDay (rec_calendarDate d) = targetDayOfWeek) itemData)))"

text \<open>
  \<^verbatim>\<open>getRecentData\<close> reads the clock: \<^verbatim>\<open>new Date()\<close> is the argument \<open>now\<close>, which every
  function that reaches \<^verbatim>\<open>getRecentData\<close> passes on. One run reads one time.
\<close>

definition getRecentData ::
  "Date \<Rightarrow> ProcessedSalesData list \<Rightarrow> int \<Rightarrow> ProcessedSalesData list" where
  "getRecentData now itemData days =
     (let cutoffDate = setDate now (getDate now - days)
      in sortByDateDesc (filter (\<lambda>d. rec_calendarDate d \<ge> cutoffDate) itemData))"

definition getSamePeriodLastYear ::
  "ProcessedSalesData list \<Rightarrow> Date \<Rightarrow> ProcessedSalesData list" where
  "getSamePeriodLastYear itemData targetDate =
     (let lastYear = getFullYear targetDate - 1;
          targetMonth = getMonth targetDate;
          targetWeek = getDate targetDate div 7
      in filter (\<lambda>d.
           let dataYear = getFullYear (rec_calendarDate d);
               dataMonth = getMonth (rec_calendarDate d);
               dataWeek = getDate (rec_calendarDate d) div 7
           in dataYear = lastYear \<and> dataMonth = targetMonth \<and> \<bar>dataWeek - targetWeek\<bar> \<le> 1)
         itemData)"

definition calculateWeightedAverage :: "ProcessedSalesData list \<Rightarrow> real" where
  "calculateWeightedAverage data =
     (if length data = 0 then 0
      else
        let (weightedSum, totalWeight) =
              foldl (\<lambda>(weightedSum, totalWeight) (item, index).
                       let weight = (8 / 10) ^ index
                       in (weightedSum + rec_currentYearUnits item * weight, totalWeight + weight))
                    (0, 0) (zip data [0 ..< length data])
        in if totalWeight > 0 then weightedSum / totalWeight else 0)"

definition calculateBaseDemand :: "Date \<Rightarrow> ProcessedSalesData list \<Rightarrow> Date \<Rightarrow> real" where
  "calculateBaseDemand now itemData targetDate =
     (if length itemData = 0 then 0
      else
        let sameDayOfWeek = getSameDayOfWeekData itemData targetDate
        in if length sameDayOfWeek > 0 then calculateWeightedAverage sameDayOfWeek
           else
             let recentData = getRecentData now itemData 30
             in if length recentData > 0 then calculateWeightedAverage recentData
                else
                  let lastYearData = getSamePeriodLastYear itemData targetDate
                  in if length lastYearData > 0 then calculateWeightedAverage lastYearData
                     else
                       let totalUnits = foldl (\<lambda>sum d. sum + rec_currentYearUnits d) 0 itemData
                       in totalUnits / real (length itemData))"

text \<open>A missing or zero table entry gives the factor \<open>1\<close>.\<close>

definition lookupFactor :: "(int \<rightharpoonup> real) \<Rightarrow> int \<Rightarrow> real" where
  "lookupFactor table k = (case table k of None \<Rightarrow> 1 | Some v \<Rightarrow> orDefault v 1)"

definition getSeasonalFactor :: "DemandForecaster \<Rightarrow> Date \<Rightarrow> real" where
  "getSeasonalFactor this date =
     (let month = getMonth date + 1 in lookupFactor (fc_seasonalFactors this) month)"

definition getDayOfWeekFactor :: "DemandForecaster \<Rightarrow> Date \<Rightarrow> real" where
  "getDayOfWeekFactor this date =
     (let dayOfWeek = getDay date in lookupFactor (fc_dayOfWeekFactors this) dayOfWeek)"

text \<open>
  \<^verbatim>\<open>calculateTrendFactor\<close>: the regression runs over at least four points with the
  abscissae \<open>0, 1, ..., n - 1\<close>, for which \<open>n \<cdot> sumX2 - sumX\<^sup>2\<close> is positive; the division
  by \<^verbatim>\<open>avgY\<close> is guarded.
\<close>

definition calculateTrendFactor :: "Date \<Rightarrow> ProcessedSalesData list \<Rightarrow> Date \<Rightarrow> real" where
  "calculateTrendFactor now itemData targetDate =
     (if length itemData < 4 then 1
      else
        let recentData0 = getRecentData now itemData 28
        in if length recentData0 < 4 then 1
           else
             let recentData = sortByDateAsc recentData0;
                 n = real (length recentData);
                 (sumX, sumY, sumXY, sumX2) =
                   foldl (\<lambda>(sumX, sumY, sumXY, sumX2) (item, index).
                            let x = real index; y = rec_currentYearUnits item
                            in (sumX + x, sumY + y, sumXY + x * y, sumX2 + x * x))
                         (0, 0, 0, 0) (zip recentData [0 ..< length recentData]);
                 slope = (n * sumXY - sumX * sumY) / (n * sumX2 - sumX * sumX);
                 avgY = sumY / n
             in if avgY > 0 then
                  let trendFactor = 1 + slope / avgY
                  in max (1 / 2) (min 2 trendFactor)
                else 1)"

definition calculateForecastFactors ::
  "DemandForecaster \<Rightarrow> Date \<Rightarrow> Date \<Rightarrow> ProcessedSalesData list \<Rightarrow> ForecastFactors" where
  "calculateForecastFactors this now targetDate itemData =
     (let seasonal = getSeasonalFactor this targetDate;
          dayOfWeek = getDayOfWeekFactor this targetDate;
          holiday = imp_factor (getHolidayImpactFactor (fc_holidayEngine this) targetDate None);
          trend = calculateTrendFactor now itemData targetDate
      in \<lparr> ff_seasonal = seasonal, ff_dayOfWeek = dayOfWeek, ff_holiday = holiday,
           ff_trend = trend, ff_growth = 0 \<rparr>)"

definition calculateDateFactor :: "ForecastFactors \<Rightarrow> jsnum" where
  "calculateDateFactor factors =
     jtimes (jtimes (Fin (ff_seasonal factors * ff_dayOfWeek factors)) (ff_holiday factors))
       (Fin (ff_trend factors))"

definition calculateFactorVariation :: "ForecastFactors \<Rightarrow> jsnum" where
  "calculateFactorVariation factors =
     (let deviations =
            [Fin \<bar>ff_seasonal factors - 1\<bar>,
             Fin \<bar>ff_dayOfWeek factors - 1\<bar>,
             jabs (jminus (ff_holiday factors) (Fin 1)),
             Fin \<bar>ff_trend factors - 1\<bar>]
      in jtimes (foldl jplus (Fin 0) deviations) (Fin (1 / real (length deviations))))"

definition calculateConfidence ::
  "Date \<Rightarrow> ProcessedSalesData list \<Rightarrow> Date \<Rightarrow> ForecastFactors \<Rightarrow> real" where
  "calculateConfidence now itemData targetDate factors =
     (let confidence0 = 1 / 2;
          dataPoints = length itemData;
          confidence1 = (if dataPoints \<ge> 30 then confidence0 + 3 / 10
                         else if dataPoints \<ge> 10 then confidence0 + 2 / 10
                         else if dataPoints \<ge> 5 then confidence0 + 1 / 10
                         else confidence0);
          recentData = getRecentData now itemData 14;
          confidence2 = (if length recentData \<ge> 5 then confidence1 + 1 / 10 else confidence1);
          sameDayData = getSameDayOfWeekData itemData targetDate;
          confidence3 = (if length sameDayData \<ge> 3 then confidence2 + 1 / 10 else confidence2);
          factorVariation = calculateFactorVariation factors;
          confidence4 = (if jless factorVariation (Fin (2 / 10)) then confidence3 + 1 / 10
                         else confidence3)
      in min 1 confidence4)"

fun joinStrings :: "string \<Rightarrow> string list \<Rightarrow> string" where
  "joinStrings sep [] = []"
| "joinStrings sep [s] = s"
| "joinStrings sep (s # ss) = s @ sep @ joinStrings sep ss"

definition generateForecastExplanation :: "real \<Rightarrow> jsnum \<Rightarrow> ForecastFactors \<Rightarrow> string" where
  "generateForecastExplanation baseDemand adjustedDemand factors =
     (let explanations =
            (if \<bar>ff_seasonal factors - 1\<bar> > 5 / 100
             then [(if ff_seasonal factors > 1 then ''increased'' else ''decreased'')
                   @ '' for season'']
             else [])
            @ (if \<bar>ff_dayOfWeek factors - 1\<bar> > 5 / 100
               then [(if ff_dayOfWeek factors > 1 then ''higher'' else ''lower'')
                     @ '' for day of week'']
               else [])
            @ (if jless (Fin (5 / 100)) (jabs (jminus (ff_holiday factors) (Fin 1)))
               then [(if jless (Fin 1) (ff_holiday factors) then ''increased'' else ''decreased'')
                     @ '' for holiday proximity'']
               else [])
            @ (if \<bar>ff_trend factors - 1\<bar> > 5 / 100
               then [(if ff_trend factors > 1 then ''upward'' else ''downward'') @ '' trend'']
               else [])
      in if length explanations = 0 then ''Normal demand expected''
         else ''Adjusted for: '' @ joinStrings '', '' explanations)"

definition createEmptyForecast :: "Date \<Rightarrow> ForecastResult" where
  "createEmptyForecast targetDate =
     \<lparr> fr_forecast = Fin 0,
       fr_baseDemand = 0,
       fr_adjustedDemand = Fin 0,
       fr_confidence = 0,
       fr_factors = \<lparr> ff_seasonal = 1, ff_dayOfWeek = 1, ff_holiday = Fin 1, ff_trend = 1,
                      ff_growth = 0 \<rparr>,
       fr_explanation = ''No historical data available'',
       fr_dataPoints = 0,
       fr_targetDate = targetDate \<rparr>"

text \<open>
  \<^verbatim>\<open>forecastDemand\<close>. Nothing in its body raises on records of the declared type, so the
  \<^verbatim>\<open>catch\<close> branch, which also returns the empty forecast, is not a branch of the model.
\<close>

definition forecastDemand ::
  "DemandForecaster \<Rightarrow> Date \<Rightarrow> ProcessedSalesData list \<Rightarrow> Date \<Rightarrow> real \<Rightarrow> string
     \<Rightarrow> ForecastResult" where
  "forecastDemand this now historicalData targetDate growthRate itemNumber =
     (let itemData = filter (\<lambda>d. rec_itemNumber d = itemNumber) historicalData
      in if length itemData = 0 then createEmptyForecast targetDate
         else
           let baseDemand = calculateBaseDemand now itemData targetDate;
               factors = calculateForecastFactors this now targetDate itemData;
               adjustedDemand =
                 jtimes
                   (jtimes
                      (Fin (baseDemand * (1 + growthRate) * ff_seasonal factors
                            * ff_dayOfWeek factors))
                      (ff_holiday factors))
                   (Fin (ff_trend factors));
               confidence = calculateConfidence now itemData targetDate factors
           in \<lparr> fr_forecast = jmax (Fin 0) adjustedDemand,
                fr_baseDemand = baseDemand,
                fr_adjustedDemand = adjustedDemand,
                fr_confidence = confidence,
                fr_factors = factors,
                fr_explanation = generateForecastExplanation baseDemand adjustedDemand factors,
                fr_dataPoints = length itemData,
                fr_targetDate = targetDate \<rparr>)"

text \<open>
  \<^verbatim>\<open>forecastMultiDay\<close>: the loop \<^verbatim>\<open>for (let i = 0; i < days; i++)\<close> runs for
  \<open>i = 0, ..., \<lceil>days\<rceil> - 1\<close>. The last quotient is \<^verbatim>\<open>0 / 0\<close> when \<open>days = 0\<close>.
\<close>

definition jround :: "jsnum \<Rightarrow> jsnum" where
  "jround x = (case x of NaN \<Rightarrow> NaN | Fin r \<Rightarrow> Fin (mathRound r))"

definition forecastMultiDay ::
  "DemandForecaster \<Rightarrow> Date \<Rightarrow> ProcessedSalesData list \<Rightarrow> Date \<Rightarrow> real \<Rightarrow> real \<Rightarrow> string
     \<Rightarrow> MultiDayDemand" where
  "forecastMultiDay this now historicalData startDate days growthRate itemNumber =
     (let (dailyForecasts, totalDemand, totalConfidence) =
            foldl (\<lambda>(dailyForecasts, totalDemand, totalConfidence) i.
                     let targetDate = setDate startDate (getDate startDate + int i);
                         forecast = forecastDemand this now historicalData targetDate growthRate
                                      itemNumber;
                         dailyForecast =
                           \<lparr> df_date = targetDate,
                             df_baseDemand = fr_baseDemand forecast,
                             df_adjustedDemand = fr_adjustedDemand forecast,
                             df_dateFactor = calculateDateFactor (fr_factors forecast),
                             df_confidence = fr_confidence forecast,
                             df_factors = fr_factors forecast \<rparr>
                     in (dailyForecasts @ [dailyForecast],
                         jplus totalDemand (fr_adjustedDemand forecast),
                         totalConfidence + fr_confidence forecast))
                  ([], Fin 0, 0) [0 ..< nat \<lceil>days\<rceil>]
      in \<lparr> md_totalDemand = jround totalDemand,
           md_dailyForecasts = dailyForecasts,
           md_daysAhead = days,
           md_confidenceScore = (if days = 0 then NaN else Fin (totalConfidence / days)) \<rparr>)"

section \<open>Batch optimizer\<close>

definition calculateBatchCost :: "real \<Rightarrow> real" where
  "calculateBatchCost batchSize = 50 + batchSize * 2"

definition createBatchOption :: "real \<Rightarrow> real \<Rightarrow> real \<Rightarrow> template \<Rightarrow> BatchOption" where
  "createBatchOption sz efficiency wasteRisk reasoning =
     \<lparr> opt_size = mathCeil sz,
       opt_efficiency = max 0 efficiency,
       opt_wasteRisk = max 0 (min 1 wasteRisk),
       opt_cost = calculateBatchCost sz,
       opt_reasoning = reasoning,
       opt_score = Fin 0 \<rparr>"

text \<open>
  \<^verbatim>\<open>calculateWasteRisk\<close>. The quotient \<^verbatim>\<open>excess / batchSize\<close> is reached with
  \<open>batchSize > totalDemand\<close>; every caller passes a positive batch size. The two other
  divisors can be zero, and JavaScript then goes through an infinity or \<^verbatim>\<open>NaN\<close>:
  \<^item> \<^verbatim>\<open>totalDemand / daysAhead\<close> with \<open>daysAhead = 0\<close> is \<open>+\<infinity>\<close>, \<open>-\<infinity>\<close> or \<^verbatim>\<open>NaN\<close> by the
    sign of \<open>totalDemand\<close>, so that \<^verbatim>\<open>daysToConsume\<close> is \<open>0\<close>, \<open>batchSize / 0.1\<close> or \<^verbatim>\<open>NaN\<close>;
  \<^item> \<^verbatim>\<open>(daysToConsume - shelfLife) / shelfLife\<close> with \<open>shelfLife = 0\<close> is reached with
    \<open>daysToConsume > 0\<close> and is \<open>+\<infinity>\<close>, which \<^verbatim>\<open>Math.min(1.0, _)\<close> turns into \<open>1\<close>.
\<close>

definition daysToConsume :: "real \<Rightarrow> real \<Rightarrow> real \<Rightarrow> jsnum" where
  "daysToConsume batchSize totalDemand daysAhead =
     (if daysAhead = 0 then
        (if totalDemand > 0 then Fin 0
         else if totalDemand < 0 then Fin (batchSize / (1 / 10))
         else NaN)
      else Fin (batchSize / max (1 / 10) (totalDemand / daysAhead)))"

definition calculateWasteRisk :: "real \<Rightarrow> real \<Rightarrow> real \<Rightarrow> real \<Rightarrow> real" where
  "calculateWasteRisk batchSize totalDemand shelfLife daysAhead =
     (if batchSize \<le> totalDemand then 0
      else
        let excess = batchSize - totalDemand;
            excessRatio = excess / batchSize
        in if jless (Fin shelfLife) (daysToConsume batchSize totalDemand daysAhead) then
             (case daysToConsume batchSize totalDemand daysAhead of
                Fin dtc \<Rightarrow>
                  if shelfLife = 0 then 1
                  else let expirationRisk = (dtc - shelfLife) / shelfLife
                       in min 1 (excessRatio + expirationRisk * (1 / 2))
              | NaN \<Rightarrow> excessRatio * (3 / 10))
           else excessRatio * (3 / 10))"

text \<open>
  The three helpers below are private and called from \<^verbatim>\<open>generateBatchOptions\<close> only, with
  \<open>daysAhead \<noteq> 0\<close> (a zero is replaced by \<open>3\<close>) and with a positive net demand, so the
  division and the square root are taken where HOL and JavaScript agree.
\<close>

definition calculateShelfLifeConstrainedMax :: "real \<Rightarrow> real \<Rightarrow> real \<Rightarrow> real" where
  "calculateShelfLifeConstrainedMax totalDemand shelfLife daysAhead =
     (let dailyConsumption = totalDemand / daysAhead;
          maxSafeProduction = dailyConsumption * min shelfLife (daysAhead + 1)
      in mathCeil (max totalDemand maxSafeProduction))"

definition calculateEconomicBatchQuantity :: "real \<Rightarrow> ItemConfig \<Rightarrow> real" where
  "calculateEconomicBatchQuantity demand config =
     (let minBatch = orDefault (cfg_minBatchSize config) 10;
          setupCostFactor = 2;
          economicQuantity = sqrt (demand * setupCostFactor)
      in max minBatch (mathCeil economicQuantity))"

definition generateBatchOptions ::
  "real \<Rightarrow> real \<Rightarrow> ItemConfig \<Rightarrow> MultiDayDemand \<Rightarrow> BatchOption list" where
  "generateBatchOptions netDemand totalDemand config multiDayDemand =
     (let minBatch = orDefault (cfg_minBatchSize config) 10;
          shelfLife = orDefault (cfg_shelfLife config) 3;
          daysAhead = orDefault (md_daysAhead multiDayDemand) 3;
          options1 =
            (if minBatch > 0 then
               [createBatchOption minBatch (minBatch / max 1 netDemand)
                  (calculateWasteRisk minBatch totalDemand shelfLife daysAhead)
                  (if minBatch \<ge> netDemand
                   then [Txt ''Min batch ('', Num minBatch, Txt '') covers '', Num daysAhead,
                         Txt ''-day demand'']
                   else [Txt ''Min batch ('', Num minBatch,
                         Txt '') - will need additional production soon''])]
             else []);
          options2 = options1 @
            (if netDemand > 0 then
               let exactSize = mathCeil netDemand in
               [createBatchOption exactSize 1
                  (calculateWasteRisk exactSize totalDemand shelfLife daysAhead)
                  [Txt ''Exact net demand ('', Num exactSize, Txt '') for '', Num daysAhead,
                   Txt '' days'']]
             else []);
          options3 = options2 @
            (if totalDemand > netDemand then
               let totalSize = mathCeil totalDemand in
               [createBatchOption totalSize (totalSize / max 1 netDemand)
                  (calculateWasteRisk totalSize totalDemand shelfLife daysAhead)
                  [Txt ''Total demand ('', Num totalSize, Txt '') for '', Num daysAhead,
                   Txt '' days - covers all needs'']]
             else []);
          maxSafeProduction = calculateShelfLifeConstrainedMax totalDemand shelfLife daysAhead;
          options4 = options3 @
            (if maxSafeProduction > netDemand \<and> maxSafeProduction \<noteq> totalDemand then
               [createBatchOption maxSafeProduction (maxSafeProduction / max 1 netDemand)
                  (calculateWasteRisk maxSafeProduction totalDemand shelfLife daysAhead)
                  [Txt ''Shelf-life optimized ('', Num maxSafeProduction, Txt '') for '',
                   Num shelfLife, Txt ''-day shelf life'']]
             else []);
          economicBatch = calculateEconomicBatchQuantity netDemand config;
          options5 = options4 @
            (if economicBatch > minBatch \<and> economicBatch \<noteq> netDemand \<and>
                \<not> list_ex (\<lambda>opt. \<bar>opt_size opt - economicBatch\<bar> < 2) options4 then
               [createBatchOption economicBatch (economicBatch / max 1 netDemand)
                  (calculateWasteRisk economicBatch totalDemand shelfLife daysAhead)
                  [Txt ''Economic batch ('', Num economicBatch,
                   Txt '') balances setup costs and inventory'']]
             else [])
      in filter (\<lambda>option. opt_size option > 0) options5)"

definition scoreBatchOption ::
  "BatchOption \<Rightarrow> MultiDayDemand \<Rightarrow> ItemConfig \<Rightarrow> real \<Rightarrow> jsnum" where
  "scoreBatchOption option multiDayDemand config currentStock =
     (let score0 = opt_efficiency option;
          score1 = score0 - opt_wasteRisk option * 3;
          score2 = (if opt_size option \<ge> orDefault (cfg_minBatchSize config) 0
                    then score1 + 2 / 10 else score1);
          score3 = (if opt_size option < orDefault (cfg_minBatchSize config) 10 * (1 / 2)
                    then score2 - 3 / 10 else score2);
          totalDemand = jplus (md_totalDemand multiDayDemand) (Fin currentStock);
          score4 = (if jle (jtimes totalDemand (Fin (9 / 10))) (Fin (opt_size option))
                    then score3 + 1 / 10 else score3);
          confidenceBonus = jtimes (md_confidenceScore multiDayDemand) (Fin (1 / 10));
          score5 = jplus (Fin score4) confidenceBonus;
          overproductionRatio =
            (case jmax (Fin 1) (md_totalDemand multiDayDemand) of
               Fin m \<Rightarrow> Fin (opt_size option / m)
             | NaN \<Rightarrow> NaN);
          score6 = (if jless (Fin (3 / 2)) overproductionRatio
                    then jminus score5 (jtimes (jminus overproductionRatio (Fin (3 / 2))) (Fin (1 / 2)))
                    else score5)
      in jmax (Fin 0) score6)"

definition createErrorBatchDecision :: "ItemConfig \<Rightarrow> BatchDecision" where
  "createErrorBatchDecision config =
     (let fallbackSize = orDefault (cfg_minBatchSize config) 10;
          hoursNeeded = (if cfg_productivity config > 0
                         then fallbackSize / cfg_productivity config else 0)
      in \<lparr> dec_recommendedBatchSize = fallbackSize,
           dec_produceToday = fallbackSize,
           dec_hoursNeeded = hoursNeeded,
           dec_reasoning = [Txt ''Error in batch calculation - using minimum batch size''],
           dec_options = [createBatchOption fallbackSize 1 (1 / 10) [Txt ''Fallback option'']],
           dec_selectedOption = createBatchOption fallbackSize 1 (1 / 10) [Txt ''Fallback option''],
           dec_efficiencyScore = 1 / 2,
           dec_wasteRiskScore = 1 / 10 \<rparr>)"

text \<open>
  \<^verbatim>\<open>Array.prototype.reduce\<close> without an initial value: the first element starts the
  accumulator, and an empty array raises \<^verbatim>\<open>TypeError\<close>, modelled as \<open>None\<close>.
\<close>

definition reduceBest :: "BatchOption list \<Rightarrow> BatchOption option" where
  "reduceBest scoredOptions =
     (case scoredOptions of
        [] \<Rightarrow> None
      | first # rest \<Rightarrow>
          Some (foldl (\<lambda>best current.
                  if jless (opt_score best) (opt_score current) then current else best)
                first rest))"

definition optimizeBatchSize :: "MultiDayDemand \<Rightarrow> real \<Rightarrow> ItemConfig \<Rightarrow> BatchDecision" where
  "optimizeBatchSize multiDayDemand currentStock config =
     (let totalDemand = jorDefault (md_totalDemand multiDayDemand) 0;
          netDemand = max 0 (totalDemand - currentStock)
      in if netDemand \<le> 0 then
           \<lparr> dec_recommendedBatchSize = 0,
             dec_produceToday = 0,
             dec_hoursNeeded = 0,
             dec_reasoning =
               [Txt ''Sufficient stock ('', Num (mathRound currentStock), Txt '' units) covers '',
                Num (md_daysAhead multiDayDemand), Txt ''-day demand ('',
                Num (mathRound totalDemand), Txt '' units)''],
             dec_options = [],
             dec_selectedOption = createBatchOption 0 0 0 [Txt ''No production needed''],
             dec_efficiencyScore = 1,
             dec_wasteRiskScore = 0 \<rparr>
         else
           let options = generateBatchOptions netDemand totalDemand config multiDayDemand;
               scoredOptions =
                 map (\<lambda>option. option\<lparr>opt_score :=
                        scoreBatchOption option multiDayDemand config currentStock\<rparr>) options
           in case reduceBest scoredOptions of
                None \<Rightarrow> createErrorBatchDecision config
              | Some bestOption \<Rightarrow>
                  let hoursNeeded = (if cfg_productivity config > 0
                                     then opt_size bestOption / cfg_productivity config else 0)
                  in \<lparr> dec_recommendedBatchSize = opt_size bestOption,
                       dec_produceToday = opt_size bestOption,
                       dec_hoursNeeded = hoursNeeded,
                       dec_reasoning = opt_reasoning bestOption,
                       dec_options = scoredOptions,
                       dec_selectedOption = bestOption,
                       dec_efficiencyScore = opt_efficiency bestOption,
                       dec_wasteRiskScore = opt_wasteRisk bestOption \<rparr>)"

section \<open>Plan generator\<close>

datatype Theme = Light | Dark | Auto

record FiscalYearStartSetting =
  fys_month :: int
  fys_day :: int

record GlobalSettings =
  gs_fiscalYearStart :: FiscalYearStartSetting
  gs_defaultProductivity :: real
  gs_defaultShelfLife :: real
  gs_defaultMinBatchSize :: real
  gs_defaultMaxDaysAhead :: real
  gs_defaultGrowthRate :: real
  gs_currency :: string
  gs_timezone :: string
  gs_dateFormat :: string
  gs_theme :: Theme

record DateRange =
  dr_start :: Date
  dr_end :: Date

record ProductionPlanItem =
  pi_itemNumber :: string
  pi_itemDescription :: string
  pi_oldStockStart :: real
  pi_oldStockEnd :: real
  pi_stockAge :: real
  pi_newStockEnd :: real
  pi_isExpired :: bool
  pi_lastYearUnits :: real
  pi_twoYearsAgoUnits :: real
  pi_dateFactor :: jsnum
  pi_dateFactorReasons :: "template list"
  pi_seasonalFactor :: real
  pi_holidayFactor :: jsnum
  pi_dayOfWeekFactor :: real
  pi_multiDayDemand :: MultiDayDemand
  pi_todayNeed :: jsnum
  pi_batchDecision :: BatchDecision
  pi_productivity :: real
  pi_shelfLife :: real
  pi_growthRate :: real
  pi_minBatchSize :: real
  pi_maxDaysAhead :: real

record ProductionSummary =
  sum_totalItems :: nat
  sum_activeItems :: nat
  sum_totalUnitsToProduce :: real
  sum_totalHoursNeeded :: real
  sum_itemsWithCarryover :: nat
  sum_expiredItems :: nat
  sum_batchEfficiencyScore :: real
  sum_estimatedCost :: real
  sum_wasteRiskScore :: real

text \<open>
  \<^verbatim>\<open>planningHorizon\<close> is \<^verbatim>\<open>Math.max\<close> over one copy of \<^verbatim>\<open>defaultMaxDaysAhead\<close> per selected
  item; without arguments \<^verbatim>\<open>Math.max()\<close> is \<open>-\<infinity>\<close>, here \<open>None\<close>.
\<close>

record PlanMetadata =
  meta_generatedAt :: Date
  meta_dataSource :: "string list"
  meta_holidaysConsidered :: "Holiday list"
  meta_planningHorizon :: "real option"
  meta_fiscalYearStart :: Date
  meta_version :: string
  meta_settings :: GlobalSettings

record ProductionPlan =
  plan_date :: Date
  plan_items :: "ProductionPlanItem list"
  plan_summary :: ProductionSummary
  plan_metadata :: PlanMetadata

text \<open>The generator object; the batch optimizer it also holds has no state.\<close>

record PlanGenerator =
  pg_forecaster :: DemandForecaster
  pg_holidayEngine :: "Holiday list"
  pg_fiscalCalendar :: Date

definition newPlanGenerator :: "Holiday list \<Rightarrow> GlobalSettings \<Rightarrow> PlanGenerator" where
  "newPlanGenerator holidays globalSettings =
     \<lparr> pg_forecaster = newDemandForecaster holidays,
       pg_holidayEngine = HolidayEngine holidays,
       pg_fiscalCalendar = FiscalCalendar (fys_month (gs_fiscalYearStart globalSettings))
                             (fys_day (gs_fiscalYearStart globalSettings)) \<rparr>"

definition filterData ::
  "ProcessedSalesData list \<Rightarrow> DateRange \<Rightarrow> string list \<Rightarrow> ProcessedSalesData list" where
  "filterData data dateRange selectedItems =
     filter (\<lambda>record.
               rec_itemNumber record \<in> set selectedItems \<and>
               rec_calendarDate record \<ge> dr_start dateRange \<and>
               rec_calendarDate record \<le> dr_end dateRange) data"

definition groupDataByItem :: "ProcessedSalesData list \<Rightarrow> (string \<rightharpoonup> ProcessedSalesData list)" where
  "groupDataByItem data =
     foldl (\<lambda>groups record.
              let existing = (case groups (rec_itemNumber record) of
                                None \<Rightarrow> [] | Some found \<Rightarrow> found)
              in groups (rec_itemNumber record \<mapsto> existing @ [record]))
           Map.empty data"

datatype UnitsField = CurrentYearUnits | LastYearUnits | TwoYearsAgoUnits

text \<open>
  \<^verbatim>\<open>getAverageUnits\<close> keeps the values that are numbers: an absent \<^verbatim>\<open>twoYearsAgoUnits\<close> is
  dropped.
\<close>

definition readUnits :: "UnitsField \<Rightarrow> ProcessedSalesData \<Rightarrow> real option" where
  "readUnits field d =
     (case field of
        CurrentYearUnits \<Rightarrow> Some (rec_currentYearUnits d)
      | LastYearUnits \<Rightarrow> Some (rec_lastYearUnits d)
      | TwoYearsAgoUnits \<Rightarrow> rec_twoYearsAgoUnits d)"

definition getAverageUnits :: "ProcessedSalesData list \<Rightarrow> UnitsField \<Rightarrow> real" where
  "getAverageUnits itemData field =
     (if length itemData = 0 then 0
      else
        let values = List.map_filter (readUnits field) itemData
        in if length values = 0 then 0
           else foldl (\<lambda>sum v. sum + v) 0 values / real (length values))"

definition createEmptyPlanItem :: "string \<Rightarrow> ItemConfig \<Rightarrow> Date \<Rightarrow> ProductionPlanItem" where
  "createEmptyPlanItem itemNumber config planDate =
     (let emptyMultiDayDemand =
            \<lparr> md_totalDemand = Fin 0, md_dailyForecasts = [],
              md_daysAhead = cfg_maxDaysAhead config, md_confidenceScore = Fin 0 \<rparr>;
          emptyBatchDecision =
            \<lparr> dec_recommendedBatchSize = 0,
              dec_produceToday = 0,
              dec_hoursNeeded = 0,
              dec_reasoning = [Txt ''No historical data available''],
              dec_options = [],
              dec_selectedOption =
                \<lparr> opt_size = 0, opt_efficiency = 0, opt_wasteRisk = 0, opt_cost = 0,
                  opt_reasoning = [Txt ''No data''], opt_score = Fin 0 \<rparr>,
              dec_efficiencyScore = 0,
              dec_wasteRiskScore = 0 \<rparr>
      in \<lparr> pi_itemNumber = itemNumber,
           pi_itemDescription = cfg_itemDescription config,
           pi_oldStockStart = 0,
           pi_oldStockEnd = 0,
           pi_stockAge = 0,
           pi_newStockEnd = 0,
           pi_isExpired = False,
           pi_lastYearUnits = 0,
           pi_twoYearsAgoUnits = 0,
           pi_dateFactor = Fin 1,
           pi_dateFactorReasons = [[Txt ''No historical data available'']],
           pi_seasonalFactor = 1,
           pi_holidayFactor = Fin 1,
           pi_dayOfWeekFactor = 1,
           pi_multiDayDemand = emptyMultiDayDemand,
           pi_todayNeed = Fin 0,
           pi_batchDecision = emptyBatchDecision,
           pi_productivity = cfg_productivity config,
           pi_shelfLife = cfg_shelfLife config,
           pi_growthRate = cfg_defaultGrowthRate config,
           pi_minBatchSize = cfg_minBatchSize config,
           pi_maxDaysAhead = cfg_maxDaysAhead config \<rparr>)"

text \<open>
  \<^verbatim>\<open>generatePlanItem\<close> returns an item or \<^verbatim>\<open>null\<close>. The \<^verbatim>\<open>null\<close> comes from its \<^verbatim>\<open>catch\<close>
  branch only, and nothing in its body raises: the model always returns \<open>Some\<close> item.
\<close>

definition generatePlanItem ::
  "PlanGenerator \<Rightarrow> Date \<Rightarrow> string \<Rightarrow> ProcessedSalesData list \<Rightarrow> ItemConfig \<Rightarrow> Date
     \<Rightarrow> GlobalSettings \<Rightarrow> ProductionPlanItem option" where
  "generatePlanItem this now itemNumber itemData config planDate globalSettings =
     (if length itemData = 0 then Some (createEmptyPlanItem itemNumber config planDate)
      else
        let itemDescription =
              (case itemData of
                 first # _ \<Rightarrow> if rec_itemDescription first \<noteq> [] then rec_itemDescription first
                              else cfg_itemDescription config
               | [] \<Rightarrow> cfg_itemDescription config);
            currentStock = 0;
            oldStockStart = 0;
            stockAge = 0;
            lastYearUnits = getAverageUnits itemData LastYearUnits;
            twoYearsAgoUnits = getAverageUnits itemData TwoYearsAgoUnits;
            multiDayDemand =
              forecastMultiDay (pg_forecaster this) now itemData planDate
                (cfg_maxDaysAhead config) (cfg_defaultGrowthRate config) itemNumber;
            todayForecast =
              forecastDemand (pg_forecaster this) now itemData planDate
                (cfg_defaultGrowthRate config) itemNumber;
            holidayImpact = getHolidayImpactFactor (pg_holidayEngine this) planDate None;
            dateFactorReasons = [imp_explanation holidayImpact];
            batchDecision = optimizeBatchSize multiDayDemand currentStock config;
            isExpired = (stockAge > cfg_shelfLife config);
            oldStockEnd = (if isExpired then 0 else max 0 (oldStockStart - min 0 oldStockStart));
            newStockEnd = max 0 (dec_produceToday batchDecision - max 0 (0 - oldStockStart))
        in Some
          \<lparr> pi_itemNumber = itemNumber,
            pi_itemDescription = itemDescription,
            pi_oldStockStart = oldStockStart,
            pi_oldStockEnd = oldStockEnd,
            pi_stockAge = stockAge,
            pi_newStockEnd = newStockEnd,
            pi_isExpired = isExpired,
            pi_lastYearUnits = lastYearUnits,
            pi_twoYearsAgoUnits = twoYearsAgoUnits,
            pi_dateFactor =
              jtimes (ff_holiday (fr_factors todayForecast))
                (Fin (ff_seasonal (fr_factors todayForecast)
                      * ff_dayOfWeek (fr_factors todayForecast))),
            pi_dateFactorReasons = dateFactorReasons,
            pi_seasonalFactor = ff_seasonal (fr_factors todayForecast),
            pi_holidayFactor = ff_holiday (fr_factors todayForecast),
            pi_dayOfWeekFactor = ff_dayOfWeek (fr_factors todayForecast),
            pi_multiDayDemand = multiDayDemand,
            pi_todayNeed = fr_forecast todayForecast,
            pi_batchDecision = batchDecision,
            pi_productivity = cfg_productivity config,
            pi_shelfLife = cfg_shelfLife config,
            pi_growthRate = cfg_defaultGrowthRate config,
            pi_minBatchSize = cfg_minBatchSize config,
            pi_maxDaysAhead = cfg_maxDaysAhead config \<rparr>)"

definition generateSummary :: "ProductionPlanItem list \<Rightarrow> ProductionSummary" where
  "generateSummary items =
     (let activeItems = filter (\<lambda>item. dec_produceToday (pi_batchDecision item) > 0) items;
          totalUnits = foldl (\<lambda>sum item. sum + dec_produceToday (pi_batchDecision item)) 0 items;
          totalHours = foldl (\<lambda>sum item. sum + dec_hoursNeeded (pi_batchDecision item)) 0 items;
          itemsWithCarryover = length (filter (\<lambda>item. pi_oldStockStart item > 0) items);
          expiredItems = length (filter pi_isExpired items);
          efficiencyScores =
            map (\<lambda>item. dec_efficiencyScore (pi_batchDecision item))
              (filter (\<lambda>item. dec_efficiencyScore (pi_batchDecision item) > 0) items);
          batchEfficiencyScore =
            (if length efficiencyScores > 0
             then foldl (\<lambda>sum score. sum + score) 0 efficiencyScores
                    / real (length efficiencyScores)
             else 0);
          estimatedCost = totalUnits * (25 / 10);
          wasteRiskScores = map (\<lambda>item. dec_wasteRiskScore (pi_batchDecision item)) items;
          wasteRiskScore =
            (if length wasteRiskScores > 0
             then foldl (\<lambda>sum score. sum + score) 0 wasteRiskScores
                    / real (length wasteRiskScores)
             else 0)
      in \<lparr> sum_totalItems = length items,
           sum_activeItems = length activeItems,
           sum_totalUnitsToProduce = totalUnits,
           sum_totalHoursNeeded = totalHours,
           sum_itemsWithCarryover = itemsWithCarryover,
           sum_expiredItems = expiredItems,
           sum_batchEfficiencyScore = batchEfficiencyScore,
           sum_estimatedCost = estimatedCost,
           sum_wasteRiskScore = wasteRiskScore \<rparr>)"

text \<open>A \<^verbatim>\<open>Set\<close> keeps the first occurrence of each value, in insertion order.\<close>

fun uniqueInOrder :: "string list \<Rightarrow> string list" where
  "uniqueInOrder [] = []"
| "uniqueInOrder (x # xs) = x # filter (\<lambda>y. y \<noteq> x) (uniqueInOrder xs)"

definition getFiscalYearStart :: "Date \<Rightarrow> int \<Rightarrow> Date" where
  "getFiscalYearStart thisFiscalYearStart fiscalYear =
     setFullYear thisFiscalYearStart (fiscalYear - 1)"

definition generateMetadata ::
  "PlanGenerator \<Rightarrow> Date \<Rightarrow> ProcessedSalesData list \<Rightarrow> DateRange \<Rightarrow> string list
     \<Rightarrow> Holiday list \<Rightarrow> GlobalSettings \<Rightarrow> PlanMetadata" where
  "generateMetadata this now data dateRange selectedItems holidays globalSettings =
     (let dataSources = uniqueInOrder (map rec_dataSource data);
          planningHorizon =
            (if selectedItems = [] then None
             else Some (gs_defaultMaxDaysAhead globalSettings))
      in \<lparr> meta_generatedAt = now,
           meta_dataSource = dataSources,
           meta_holidaysConsidered = filter hol_isActive holidays,
           meta_planningHorizon = planningHorizon,
           meta_fiscalYearStart =
             getFiscalYearStart (pg_fiscalCalendar this) (getFullYear now + 1),
           meta_version = ''1.0.0'',
           meta_settings = globalSettings \<rparr>)"

text \<open>
  \<^verbatim>\<open>generatePlan\<close>. The loop over the selected items skips an item without a
  configuration or with an inactive one, and pushes every item that \<^verbatim>\<open>generatePlanItem\<close>
  returns. Nothing raises, so the plan is always returned.
\<close>

definition planItemFor ::
  "PlanGenerator \<Rightarrow> Date \<Rightarrow> (string \<rightharpoonup> ProcessedSalesData list) \<Rightarrow> (string \<rightharpoonup> ItemConfig)
     \<Rightarrow> DateRange \<Rightarrow> GlobalSettings \<Rightarrow> string \<Rightarrow> ProductionPlanItem option" where
  "planItemFor this now itemGroups itemConfigs dateRange globalSettings itemNumber =
     (let itemData = (case itemGroups itemNumber of None \<Rightarrow> [] | Some found \<Rightarrow> found)
      in case itemConfigs itemNumber of
           None \<Rightarrow> None
         | Some itemConfig \<Rightarrow>
             if \<not> cfg_isActive itemConfig then None
             else generatePlanItem this now itemNumber itemData itemConfig (dr_start dateRange)
                    globalSettings)"

definition generatePlan ::
  "PlanGenerator \<Rightarrow> Date \<Rightarrow> ProcessedSalesData list \<Rightarrow> DateRange \<Rightarrow> string list
     \<Rightarrow> (string \<rightharpoonup> ItemConfig) \<Rightarrow> GlobalSettings \<Rightarrow> Holiday list \<Rightarrow> ProductionPlan" where
  "generatePlan this now data dateRange selectedItems itemConfigs globalSettings holidays =
     (let filteredData = filterData data dateRange selectedItems;
          itemGroups = groupDataByItem filteredData;
          planItems =
            List.map_filter
              (planItemFor this now itemGroups itemConfigs dateRange globalSettings)
              selectedItems;
          summary = generateSummary planItems;
          metadata = generateMetadata this now data dateRange selectedItems holidays
                       globalSettings
      in \<lparr> plan_date = dr_start dateRange,
           plan_items = planItems,
           plan_summary = summary,
           plan_metadata = metadata \<rparr>)"

section \<open>Concrete inputs\<close>

text \<open>
  The two optimizer scenarios of the repository's implementation guide
  (\<^verbatim>\<open>batch-optimizer.test.ts\<close>): a three-day demand of 8 units against a minimum batch
  of 15, and a three-day demand of 20 units against 25 units in stock.
\<close>

definition scenarioA_demand :: MultiDayDemand where
  "scenarioA_demand =
     \<lparr> md_totalDemand = Fin 8, md_dailyForecasts = [], md_daysAhead = 3,
       md_confidenceScore = Fin (8 / 10) \<rparr>"

definition scenarioA_config :: ItemConfig where
  "scenarioA_config =
     \<lparr> cfg_itemNumber = ''1001'', cfg_itemDescription = ''item'', cfg_productivity = 5,
       cfg_shelfLife = 3, cfg_minBatchSize = 15, cfg_maxDaysAhead = 3,
       cfg_defaultGrowthRate = 0, cfg_isActive = True \<rparr>"

definition scenarioB_demand :: MultiDayDemand where
  "scenarioB_demand =
     \<lparr> md_totalDemand = Fin 20, md_dailyForecasts = [], md_daysAhead = 3,
       md_confidenceScore = Fin (8 / 10) \<rparr>"

definition scenarioB_config :: ItemConfig where
  "scenarioB_config =
     \<lparr> cfg_itemNumber = ''1001'', cfg_itemDescription = ''item'', cfg_productivity = 5,
       cfg_shelfLife = 3, cfg_minBatchSize = 10, cfg_maxDaysAhead = 3,
       cfg_defaultGrowthRate = 0, cfg_isActive = True \<rparr>"

text \<open>The Thanksgiving rule of the default holidays, as a rule set of its own.\<close>

definition thanksgiving :: Holiday where
  "thanksgiving =
     mkHoliday ''thanksgiving'' ''Thanksgiving'' Floating (Some 11) None
       (Some ''fourth thursday'') 3 1 (18 / 10) ''Thanksgiving - very high sales'' True"

text \<open>
  A planning run: the default settings of the application store, the month of March 2025
  as date range (so that the plan date is Monday 3 March 2025), two sales records of item
  1001 for Tuesday 4 March (10 units) and Tuesday 25 March (20 units), an active
  configuration for item 1001 and one for item 3003, which has no sales records.
  The clock readings are 10 April, 11 April and 1 June 2025.
\<close>

definition defaultGlobalSettings :: GlobalSettings where
  "defaultGlobalSettings =
     \<lparr> gs_fiscalYearStart = \<lparr> fys_month = 9, fys_day = 2 \<rparr>,
       gs_defaultProductivity = 5, gs_defaultShelfLife = 3, gs_defaultMinBatchSize = 10,
       gs_defaultMaxDaysAhead = 3, gs_defaultGrowthRate = 10 / 100,
       gs_currency = ''USD'', gs_timezone = ''America/New_York'',
       gs_dateFormat = ''MM/dd/yyyy'', gs_theme = Light \<rparr>"

definition planRange :: DateRange where
  "planRange = \<lparr> dr_start = newDate 2025 2 3, dr_end = newDate 2025 2 31 \<rparr>"

definition mkSales :: "string \<Rightarrow> Date \<Rightarrow> real \<Rightarrow> ProcessedSalesData" where
  "mkSales itemNumber date units =
     \<lparr> rec_itemNumber = itemNumber, rec_itemDescription = ''Turkey breast'',
       rec_calendarDate = date,
       rec_fiscalDate = \<lparr> fd_fiscalYear = 2025, fd_fiscalPeriod = 7, fd_fiscalWeek = 1,
                          fd_fiscalDay = 1 \<rparr>,
       rec_currentYearUnits = units, rec_lastYearUnits = 0, rec_twoYearsAgoUnits = None,
       rec_variance = 0, rec_variancePercent = 0, rec_dataSource = ''sales.csv'' \<rparr>"

definition planData :: "ProcessedSalesData list" where
  "planData = [mkSales ''1001'' (newDate 2025 2 4) 10, mkSales ''1001'' (newDate 2025 2 25) 20]"

definition planConfig :: "string \<Rightarrow> ItemConfig" where
  "planConfig itemNumber =
     \<lparr> cfg_itemNumber = itemNumber, cfg_itemDescription = ''Turkey breast'',
       cfg_productivity = 5, cfg_shelfLife = 3, cfg_minBatchSize = 10, cfg_maxDaysAhead = 1,
       cfg_defaultGrowthRate = 0, cfg_isActive = True \<rparr>"

definition planConfigs :: "string \<rightharpoonup> ItemConfig" where
  "planConfigs = [''1001'' \<mapsto> planConfig ''1001'', ''3003'' \<mapsto> planConfig ''3003'']"

definition planGenerator :: PlanGenerator where
  "planGenerator = newPlanGenerator [thanksgiving] defaultGlobalSettings"

definition clockApril10 :: Date where
  "clockApril10 = newDate 2025 3 10"

definition clockApril11 :: Date where
  "clockApril11 = newDate 2025 3 11"

definition clockJune1 :: Date where
  "clockJune1 = newDate 2025 5 1"

text \<open>
  Two clock readings agree on a list of records when each of the three windows of
  \<^verbatim>\<open>getRecentData\<close> (14, 28 and 30 days back) holds the same records at both.
\<close>

definition sameRecentWindows :: "Date \<Rightarrow> Date \<Rightarrow> ProcessedSalesData list \<Rightarrow> bool" where
  "sameRecentWindows now1 now2 data =
     list_all (\<lambda>days.
        list_all (\<lambda>r. (rec_calendarDate r \<ge> setDate now1 (getDate now1 - days))
                     = (rec_calendarDate r \<ge> setDate now2 (getDate now2 - days))) data)
       [14, 28, 30]"

section \<open>Properties of the batch optimizer\<close>

lemma orDefault_zero: "orDefault x 0 = x"
  by (simp add: orDefault_def)

lemma createBatchOption_size: "opt_size (createBatchOption s e w r) = of_int \<lceil>s\<rceil>"
  by (simp add: createBatchOption_def mathCeil_def)

text \<open>
  C5. If the stock on hand covers the multi-day demand (\<open>currentStock \<ge> totalDemand\<close>),
  \<^verbatim>\<open>optimizeBatchSize\<close> returns the zero-production decision: nothing to produce today,
  waste risk \<open>0\<close>, efficiency \<open>1\<close>, and a reasoning that starts with "Sufficient stock".
\<close>

theorem optimizeBatchSize_sufficient_stock:
  assumes "md_totalDemand md = Fin T" and "T \<le> currentStock"
  shows "dec_produceToday (optimizeBatchSize md currentStock cfg) = 0
       \<and> dec_wasteRiskScore (optimizeBatchSize md currentStock cfg) = 0
       \<and> dec_efficiencyScore (optimizeBatchSize md currentStock cfg) = 1
       \<and> dec_reasoning (optimizeBatchSize md currentStock cfg) =
           [Txt ''Sufficient stock ('', Num (mathRound currentStock), Txt '' units) covers '',
            Num (md_daysAhead md), Txt ''-day demand ('', Num (mathRound T), Txt '' units)'']"
  using assms by (simp add: optimizeBatchSize_def orDefault_zero Let_def)

theorem optimizeBatchSize_sufficient_stock_witness:
  "md_totalDemand scenarioB_demand = Fin 20 \<and> (20::real) \<le> 25
   \<and> dec_produceToday (optimizeBatchSize scenarioB_demand 25 scenarioB_config) = 0
   \<and> dec_wasteRiskScore (optimizeBatchSize scenarioB_demand 25 scenarioB_config) = 0
   \<and> dec_efficiencyScore (optimizeBatchSize scenarioB_demand 25 scenarioB_config) = 1
   \<and> hd (dec_reasoning (optimizeBatchSize scenarioB_demand 25 scenarioB_config)) =
       Txt ''Sufficient stock (''"
proof -
  have h1: "md_totalDemand scenarioB_demand = Fin 20" by (simp add: scenarioB_demand_def)
  have h2: "(20::real) \<le> 25" by simp
  show ?thesis
    using optimizeBatchSize_sufficient_stock [OF h1 h2, of scenarioB_config] h1 by simp
qed

subsection \<open>Scenario A on the code\<close>

lemma sqrt_16: "sqrt 16 = 4"
  using real_sqrt_abs [of 4] by simp

lemma scenarioA_wasteRisk_15: "calculateWasteRisk 15 8 3 3 = 217 / 240"
  by (simp add: calculateWasteRisk_def daysToConsume_def Let_def)

lemma scenarioA_wasteRisk_8: "calculateWasteRisk 8 8 3 3 = 0"
  by (simp add: calculateWasteRisk_def)

lemma scenarioA_options:
  "generateBatchOptions 8 8 scenarioA_config scenarioA_demand =
     [createBatchOption 15 (15 / 8) (217 / 240)
        [Txt ''Min batch ('', Num 15, Txt '') covers '', Num 3, Txt ''-day demand''],
      createBatchOption 8 1 0
        [Txt ''Exact net demand ('', Num 8, Txt '') for '', Num 3, Txt '' days'']]"
  by (simp add: generateBatchOptions_def scenarioA_config_def scenarioA_demand_def Let_def
      orDefault_def mathCeil_def createBatchOption_def scenarioA_wasteRisk_15
      scenarioA_wasteRisk_8 calculateShelfLifeConstrainedMax_def
      calculateEconomicBatchQuantity_def sqrt_16 calculateBatchCost_def)

lemma scenarioA_score_15:
  "scoreBatchOption (createBatchOption 15 (15 / 8) (217 / 240) r)
     scenarioA_demand scenarioA_config 0 = Fin 0"
  by (simp add: scoreBatchOption_def createBatchOption_def scenarioA_config_def
      scenarioA_demand_def Let_def orDefault_def mathCeil_def calculateBatchCost_def)

lemma scenarioA_score_8:
  "scoreBatchOption (createBatchOption 8 1 0 r) scenarioA_demand scenarioA_config 0
     = Fin (118 / 100)"
  by (simp add: scoreBatchOption_def createBatchOption_def scenarioA_config_def
      scenarioA_demand_def Let_def orDefault_def mathCeil_def calculateBatchCost_def)

text \<open>
  C6. Scenario A (minimum batch 15, three-day demand 8, no stock, shelf life 3). The
  guide's test expects 15 units and a "Min batch" reasoning. The code scores the
  minimum-batch option \<open>0\<close> (waste risk \<open>217/240\<close>, weighted by 3) and the exact-demand
  option \<open>1.18\<close>, and so produces 8 units with the "Exact net demand" reasoning.
\<close>

theorem optimizeBatchSize_scenarioA:
  "dec_produceToday (optimizeBatchSize scenarioA_demand 0 scenarioA_config) = 8
   \<and> dec_reasoning (optimizeBatchSize scenarioA_demand 0 scenarioA_config) =
       [Txt ''Exact net demand ('', Num 8, Txt '') for '', Num 3, Txt '' days'']"
proof -
  have nd: "jorDefault (md_totalDemand scenarioA_demand) 0 = 8"
    by (simp add: scenarioA_demand_def orDefault_def)
  show ?thesis
    by (simp add: optimizeBatchSize_def nd Let_def scenarioA_options scenarioA_score_15
        scenarioA_score_8 reduceBest_def)
      (simp add: createBatchOption_def mathCeil_def)
qed

subsection \<open>Waste risk grows with the batch size\<close>










subsection \<open>A positive net demand always yields a positive batch\<close>

lemma generateBatchOptions_exact_member:
  assumes "0 < nd"
  shows "createBatchOption (mathCeil nd) 1
           (calculateWasteRisk (mathCeil nd) T (orDefault (cfg_shelfLife cfg) 3)
              (orDefault (md_daysAhead md) 3))
           [Txt ''Exact net demand ('', Num (mathCeil nd), Txt '') for '',
            Num (orDefault (md_daysAhead md) 3), Txt '' days'']
         \<in> set (generateBatchOptions nd T cfg md)"
proof -
  have "0 < \<lceil>nd\<rceil>" using assms by linarith
  then show ?thesis using assms
    by (simp add: generateBatchOptions_def Let_def createBatchOption_size mathCeil_def)
qed

lemma generateBatchOptions_sizes:
  assumes "opt \<in> set (generateBatchOptions nd T cfg md)"
  shows "0 < opt_size opt \<and> opt_size opt \<in> \<int>"
proof -
  have pos: "0 < opt_size opt"
    using assms unfolding generateBatchOptions_def Let_def
    by (simp only: set_filter mem_Collect_eq)
  have "\<exists>s e w r. opt = createBatchOption s e w r"
    using assms unfolding generateBatchOptions_def Let_def
    by (auto split: if_splits)
  then have "opt_size opt \<in> \<int>" by (auto simp: createBatchOption_size)
  with pos show ?thesis by simp
qed

lemma foldl_best_member:
  "foldl (\<lambda>best current. if jless (opt_score best) (opt_score current) then current else best)
     b xs \<in> set (b # xs)"
  by (induction xs arbitrary: b) auto

lemma reduceBest_member: "reduceBest xs = Some b \<Longrightarrow> b \<in> set xs"
  using foldl_best_member by (auto simp: reduceBest_def split: list.splits)

lemma reduceBest_defined: "xs \<noteq> [] \<Longrightarrow> \<exists>b. reduceBest xs = Some b"
  by (auto simp: reduceBest_def split: list.splits)

text \<open>
  C10. When the total demand exceeds the stock on hand, \<^verbatim>\<open>generateBatchOptions\<close> returns
  a non-empty list that contains the exact-net-demand option, of size
  \<open>\<lceil>netDemand\<rceil> \<ge> 1\<close>; the reduction over the scored options therefore has a first
  element, the selected option is one of the scored options, and the quantity to
  produce today is a positive integer.
\<close>

theorem optimizeBatchSize_positive:
  assumes td: "md_totalDemand md = Fin T" and gt: "currentStock < T"
  shows "generateBatchOptions (T - currentStock) T cfg md \<noteq> []
       \<and> (\<exists>opt. opt \<in> set (generateBatchOptions (T - currentStock) T cfg md)
             \<and> opt_size opt = of_int \<lceil>T - currentStock\<rceil> \<and> 1 \<le> opt_size opt)
       \<and> dec_options (optimizeBatchSize md currentStock cfg) \<noteq> []
       \<and> dec_selectedOption (optimizeBatchSize md currentStock cfg)
             \<in> set (dec_options (optimizeBatchSize md currentStock cfg))
       \<and> 0 < dec_produceToday (optimizeBatchSize md currentStock cfg)
       \<and> dec_produceToday (optimizeBatchSize md currentStock cfg) \<in> \<int>"
proof -
  define nd where "nd = T - currentStock"
  define options where "options = generateBatchOptions nd T cfg md"
  define scored where "scored =
    map (\<lambda>option. option\<lparr>opt_score := scoreBatchOption option md cfg currentStock\<rparr>) options"
  have nd0: "0 < nd" using gt by (simp add: nd_def)
  define eo where "eo = createBatchOption (mathCeil nd) 1
           (calculateWasteRisk (mathCeil nd) T (orDefault (cfg_shelfLife cfg) 3)
              (orDefault (md_daysAhead md) 3))
           [Txt ''Exact net demand ('', Num (mathCeil nd), Txt '') for '',
            Num (orDefault (md_daysAhead md) 3), Txt '' days'']"
  have ex: "eo \<in> set options"
    unfolding options_def eo_def by (rule generateBatchOptions_exact_member [OF nd0])
  then have ne: "options \<noteq> []" by auto
  have "1 \<le> \<lceil>nd\<rceil>" using nd0 by linarith
  then have one: "(1::real) \<le> of_int \<lceil>nd\<rceil>" by linarith
  have esz: "opt_size eo = of_int \<lceil>nd\<rceil>"
    by (simp add: eo_def createBatchOption_size mathCeil_def)
  have c1: "\<exists>opt. opt \<in> set options \<and> opt_size opt = of_int \<lceil>nd\<rceil> \<and> 1 \<le> opt_size opt"
    using ex esz one by auto
  have sne: "scored \<noteq> []" using ne by (simp add: scored_def)
  then obtain best where best: "reduceBest scored = Some best"
    using reduceBest_defined by blast
  then have bm: "best \<in> set scored" by (rule reduceBest_member)
  then obtain opt where om: "opt \<in> set options" and sz: "opt_size best = opt_size opt"
    by (auto simp: scored_def)
  have bsz: "0 < opt_size best \<and> opt_size best \<in> \<int>"
    using generateBatchOptions_sizes [OF om [unfolded options_def]] sz by simp
  have dec: "optimizeBatchSize md currentStock cfg =
      \<lparr> dec_recommendedBatchSize = opt_size best,
        dec_produceToday = opt_size best,
        dec_hoursNeeded = (if cfg_productivity cfg > 0
                           then opt_size best / cfg_productivity cfg else 0),
        dec_reasoning = opt_reasoning best,
        dec_options = scored,
        dec_selectedOption = best,
        dec_efficiencyScore = opt_efficiency best,
        dec_wasteRiskScore = opt_wasteRisk best \<rparr>"
    using td gt best
    by (simp add: optimizeBatchSize_def orDefault_zero Let_def scored_def options_def nd_def
        max_def)
  show ?thesis
    using ne c1 sne bm bsz unfolding dec options_def nd_def by simp
qed

theorem optimizeBatchSize_positive_witness:
  "md_totalDemand scenarioA_demand = Fin 8 \<and> (0::real) < 8
   \<and> 0 < dec_produceToday (optimizeBatchSize scenarioA_demand 0 scenarioA_config)
   \<and> dec_produceToday (optimizeBatchSize scenarioA_demand 0 scenarioA_config) \<in> \<int>"
proof -
  have h1: "md_totalDemand scenarioA_demand = Fin 8" by (simp add: scenarioA_demand_def)
  have h2: "(0::real) < 8" by simp
  show ?thesis
    using optimizeBatchSize_positive [OF h1 h2, of scenarioA_config] h1 by simp
qed

section \<open>Properties of the fiscal calendar\<close>

text \<open>
  C1. The fiscal round trip on the code, with the fiscal year anchored at 2 September.
  \<^verbatim>\<open>convertToCalendarDate\<close> starts fiscal year \<open>fy\<close> in calendar year \<open>fy - 1\<close>.
  \<^verbatim>\<open>convertToFiscalDate\<close> first finds the label of the fiscal year that contains the date
  under the same convention and then returns that label plus one. Period, week and
  day come back unchanged, the fiscal year comes back one too large: here for a
  coordinate in the first months of fiscal year 2025 (1 October 2024), for one in its
  middle (26 February 2025), and for its first and last day.
\<close>

theorem fiscal_round_trip_year_plus_one:
  "convertToFiscalDate (FiscalCalendar 9 2)
     (convertToCalendarDate (FiscalCalendar 9 2) 2025 2 1 2)
     = \<lparr> fd_fiscalYear = 2026, fd_fiscalPeriod = 2, fd_fiscalWeek = 1, fd_fiscalDay = 2 \<rparr>
   \<and> convertToFiscalDate (FiscalCalendar 9 2)
     (convertToCalendarDate (FiscalCalendar 9 2) 2025 7 2 3)
     = \<lparr> fd_fiscalYear = 2026, fd_fiscalPeriod = 7, fd_fiscalWeek = 2, fd_fiscalDay = 3 \<rparr>
   \<and> convertToFiscalDate (FiscalCalendar 9 2)
     (convertToCalendarDate (FiscalCalendar 9 2) 2025 1 1 1)
     = \<lparr> fd_fiscalYear = 2026, fd_fiscalPeriod = 1, fd_fiscalWeek = 1, fd_fiscalDay = 1 \<rparr>
   \<and> convertToFiscalDate (FiscalCalendar 9 2)
     (convertToCalendarDate (FiscalCalendar 9 2) 2025 13 4 7)
     = \<lparr> fd_fiscalYear = 2026, fd_fiscalPeriod = 13, fd_fiscalWeek = 4, fd_fiscalDay = 7 \<rparr>"
  by code_simp

section \<open>Properties of the holiday engine\<close>

lemma same_day_difference:
  assumes "hdate \<le> date" "date < hdate + msPerDay"
  shows "(date - hdate) div msPerDay = 0"
  using assms by (simp add: div_pos_pos_trivial)

text \<open>
  Inside the impact zone a zero \<^verbatim>\<open>maxDistance\<close> comes with a zero distance: the quotient
  that \<open>nearbyHoliday\<close> models as \<^verbatim>\<open>NaN\<close> is \<^verbatim>\<open>0 / 0\<close>, never a non-zero number over zero.
\<close>

lemma zero_window_zero_distance:
  fixes daysDifference daysBefore daysAfter :: int
  assumes "daysDifference \<ge> - daysAfter" "daysDifference \<le> daysBefore"
      and "max daysBefore daysAfter = 0"
  shows "\<bar>daysDifference\<bar> = 0"
  using assms by (simp add: max_def split: if_splits)

subsection \<open>An engine without active rules\<close>

text \<open>
  C2. For every date, an engine that holds no active rule (all its rules inactive, or its
  list emptied by \<^verbatim>\<open>removeHoliday\<close>) returns the factor \<open>1\<close>, no affected holiday and the
  explanation "No holiday impact". An engine constructed from an empty rule list is not
  such an engine: the constructor gives it the thirteen default rules.
\<close>

theorem no_active_rule_neutral:
  assumes "filter hol_isActive engine = []"
  shows "getHolidayImpactFactor engine date year =
           \<lparr> imp_factor = Fin 1, imp_affectedHolidays = [],
             imp_explanation = [Txt ''No holiday impact''] \<rparr>"
  using assms
  by (simp add: getHolidayImpactFactor_def getHolidaysForYear_def findNearbyHolidays_def
      List.map_filter_simps calculateCombinedImpact_def generateImpactExplanation_def Let_def)

theorem no_active_rule_neutral_witness:
  "filter hol_isActive (removeHoliday (HolidayEngine [thanksgiving]) ''thanksgiving'') = []
   \<and> getHolidayImpactFactor (removeHoliday (HolidayEngine [thanksgiving]) ''thanksgiving'')
       (newDate 2025 10 27) None =
         \<lparr> imp_factor = Fin 1, imp_affectedHolidays = [],
           imp_explanation = [Txt ''No holiday impact''] \<rparr>"
proof -
  have h: "filter hol_isActive (removeHoliday (HolidayEngine [thanksgiving]) ''thanksgiving'') = []"
    by (simp add: removeHoliday_def HolidayEngine_def thanksgiving_def mkHoliday_def)
  show ?thesis
    using no_active_rule_neutral [OF h, of "newDate 2025 10 27" None] h by simp
qed

lemma default_engine_july4_2025:
  "findNearbyHolidays (newDate 2025 6 4) (getHolidaysForYear (HolidayEngine []) 2025) =
     [\<lparr> aff_holiday = getDefaultHolidays ! 4, aff_distance = 0, aff_impact = Fin (14 / 10) \<rparr>]"
  by code_simp

lemma year_july4_2025: "getFullYear (newDate 2025 6 4) = 2025"
  by code_simp

lemma combined_independence_day:
  "calculateCombinedImpact [\<lparr> aff_holiday = h, aff_distance = 0, aff_impact = Fin (14 / 10) \<rparr>]
     = Fin (1 + (4 / 25) / sqrt (2 / 5))"
proof -
  have "(2 / 5 :: real) \<le> sqrt (2 / 5)"
    by (rule real_le_rsqrt) (simp add: power2_eq_square)
  then have "(4 / 25) / sqrt (2 / 5) \<le> (4 / 25) / (2 / 5 :: real)"
    by (intro divide_left_mono) simp_all
  then have hi: "1 + (4 / 25) / sqrt (2 / 5) \<le> (5 :: real)" by simp
  have lo: "(1 / 10 :: real) \<le> 1 + (4 / 25) / sqrt (2 / 5)"
    by (simp add: add_nonneg_nonneg)
  have "calculateCombinedImpact [\<lparr> aff_holiday = h, aff_distance = 0, aff_impact = Fin (14 / 10) \<rparr>]
     = jmax (Fin (1 / 10)) (jmin (Fin 5) (Fin (1 + (4 / 25) / sqrt (2 / 5))))"
    by (simp add: calculateCombinedImpact_def Let_def)
  also have "\<dots> = Fin (1 + (4 / 25) / sqrt (2 / 5))"
    using lo hi by (simp add: min_def max_def)
  finally show ?thesis .
qed

text \<open>
  The engine constructed from the empty rule list, asked about 4 July 2025: the default
  rule "Independence Day" applies, the factor is \<open>1 + 0.16 / \<surd>0.4\<close>, about \<open>1.25\<close>.
\<close>

theorem empty_rule_set_counterexample:
  "imp_factor (getHolidayImpactFactor (HolidayEngine []) (newDate 2025 6 4) None) \<noteq> Fin 1
   \<and> imp_explanation (getHolidayImpactFactor (HolidayEngine []) (newDate 2025 6 4) None)
       \<noteq> [Txt ''No holiday impact'']"
proof -
  have f: "imp_factor (getHolidayImpactFactor (HolidayEngine []) (newDate 2025 6 4) None)
      = Fin (1 + (4 / 25) / sqrt (2 / 5))"
    unfolding getHolidayImpactFactor_def Let_def
    by (simp only: option.case year_july4_2025 default_engine_july4_2025
        combined_independence_day HolidayImpact.simps)
  have pos: "0 < (4 / 25) / sqrt (2 / 5 :: real)" by simp
  have e: "imp_explanation (getHolidayImpactFactor (HolidayEngine []) (newDate 2025 6 4) None)
      = generateImpactExplanation
          [\<lparr> aff_holiday = getDefaultHolidays ! 4, aff_distance = 0, aff_impact = Fin (14 / 10) \<rparr>]"
    unfolding getHolidayImpactFactor_def Let_def
    by (simp only: option.case year_july4_2025 default_engine_july4_2025 HolidayImpact.simps)
  have "generateImpactExplanation
          [\<lparr> aff_holiday = getDefaultHolidays ! 4, aff_distance = 0, aff_impact = Fin (14 / 10) \<rparr>]
        \<noteq> [Txt ''No holiday impact'']"
    by (simp add: generateImpactExplanation_def explainHoliday_def Let_def)
  with f e pos show ?thesis by simp
qed

subsection \<open>Thanksgiving alone, on Thanksgiving\<close>

lemma sqrt_four_fifths_bounds: "4 / 5 \<le> sqrt (4 / 5) \<and> sqrt (4 / 5) \<le> 1"
proof -
  have "(4 / 5 :: real) \<le> sqrt (4 / 5)"
    by (rule real_le_rsqrt) (simp add: power2_eq_square)
  moreover have "sqrt (4 / 5) \<le> (1 :: real)"
    by simp
  ultimately show ?thesis by simp
qed

lemma combined_thanksgiving:
  "calculateCombinedImpact [\<lparr> aff_holiday = h, aff_distance = 0, aff_impact = Fin (18 / 10) \<rparr>]
     = Fin (1 + (16 / 25) / sqrt (4 / 5))"
proof -
  have pos: "0 < sqrt (4 / 5 :: real)" by simp
  have lo: "(1 / 10 :: real) \<le> 1 + (16 / 25) / sqrt (4 / 5)"
    using pos by (simp add: add_nonneg_nonneg)
  have "(16 / 25) / sqrt (4 / 5) \<le> (16 / 25) / (4 / 5 :: real)"
    using sqrt_four_fifths_bounds by (intro divide_left_mono) simp_all
  then have hi: "1 + (16 / 25) / sqrt (4 / 5) \<le> (5 :: real)" by simp
  have "calculateCombinedImpact [\<lparr> aff_holiday = h, aff_distance = 0, aff_impact = Fin (18 / 10) \<rparr>]
     = jmax (Fin (1 / 10)) (jmin (Fin 5) (Fin (1 + (16 / 25) / sqrt (4 / 5))))"
    by (simp add: calculateCombinedImpact_def Let_def)
  also have "\<dots> = Fin (1 + (16 / 25) / sqrt (4 / 5))"
    using lo hi by (simp add: min_def max_def)
  finally show ?thesis .
qed

lemma blended_thanksgiving_value:
  "171 / 100 < 1 + (16 / 25) / sqrt (4 / 5 :: real)
   \<and> 1 + (16 / 25) / sqrt (4 / 5 :: real) < 172 / 100"
proof -
  have pos: "0 < sqrt (4 / 5 :: real)" by simp
  have up: "sqrt (4 / 5 :: real) < 64 / 71"
    by (rule real_less_lsqrt) (simp_all add: power2_eq_square)
  have low: "(8 / 9 :: real) < sqrt (4 / 5)"
    by (rule real_less_rsqrt) (simp add: power2_eq_square)
  have "(71 / 100) * sqrt (4 / 5 :: real) < 16 / 25" using up by simp
  then have a: "71 / 100 < (16 / 25) / sqrt (4 / 5 :: real)"
    using pos by (simp add: pos_less_divide_eq)
  have "(16 / 25 :: real) < (72 / 100) * sqrt (4 / 5)" using low by simp
  then have b: "(16 / 25) / sqrt (4 / 5 :: real) < 72 / 100"
    using pos by (simp add: pos_divide_less_eq)
  from a b show ?thesis by simp
qed

text \<open>
  C3. With Thanksgiving (fourth Thursday of November, multiplier \<open>1.8\<close>, three days before,
  one day after) as the only rule, on any instant of the fourth Thursday of November the
  one affected holiday has distance \<open>0\<close> and impact \<open>1.8\<close>, and the factor returned is the
  impact after the blending formula, \<open>1 + 0.8 \<cdot> 0.8 / \<surd>0.8\<close>, between \<open>1.71\<close> and \<open>1.72\<close>.
\<close>

theorem thanksgiving_day_factor:
  assumes hdate: "calculateHolidayDate thanksgiving (getFullYear date) = Some hdate"
      and lo: "hdate \<le> date" and hi: "date < hdate + msPerDay"
  shows "getHolidayImpactFactor (HolidayEngine [thanksgiving]) date None =
           \<lparr> imp_factor = Fin (1 + (16 / 25) / sqrt (4 / 5)),
             imp_affectedHolidays =
               [\<lparr> aff_holiday = thanksgiving, aff_distance = 0, aff_impact = Fin (18 / 10) \<rparr>],
             imp_explanation = [Txt ''Thanksgiving (increased sales)''] \<rparr>
         \<and> 171 / 100 < 1 + (16 / 25) / sqrt (4 / 5 :: real)
         \<and> 1 + (16 / 25) / sqrt (4 / 5 :: real) < 172 / 100"
proof -
  have eng: "HolidayEngine [thanksgiving] = [thanksgiving]" by (simp add: HolidayEngine_def)
  have act: "hol_isActive thanksgiving" by (simp add: thanksgiving_def mkHoliday_def)
  have insts: "getHolidaysForYear [thanksgiving] (getFullYear date) =
      [\<lparr> inst_holiday = thanksgiving, inst_date = hdate, inst_year = getFullYear date \<rparr>]"
    using act hdate by (simp add: getHolidaysForYear_def List.map_filter_simps)
  have near: "nearbyHoliday date
       \<lparr> inst_holiday = thanksgiving, inst_date = hdate, inst_year = getFullYear date \<rparr>
     = Some \<lparr> aff_holiday = thanksgiving, aff_distance = 0, aff_impact = Fin (18 / 10) \<rparr>"
    using same_day_difference [OF lo hi]
    by (simp add: nearbyHoliday_def Let_def thanksgiving_def mkHoliday_def)
  have aff: "findNearbyHolidays date (getHolidaysForYear [thanksgiving] (getFullYear date)) =
      [\<lparr> aff_holiday = thanksgiving, aff_distance = 0, aff_impact = Fin (18 / 10) \<rparr>]"
    by (simp add: findNearbyHolidays_def insts List.map_filter_simps near)
  have expl: "generateImpactExplanation
      [\<lparr> aff_holiday = thanksgiving, aff_distance = 0, aff_impact = Fin (18 / 10) \<rparr>]
      = [Txt ''Thanksgiving (increased sales)'']"
    by (simp add: generateImpactExplanation_def explainHoliday_def Let_def thanksgiving_def
        mkHoliday_def)
  have "getHolidayImpactFactor (HolidayEngine [thanksgiving]) date None =
           \<lparr> imp_factor = Fin (1 + (16 / 25) / sqrt (4 / 5)),
             imp_affectedHolidays =
               [\<lparr> aff_holiday = thanksgiving, aff_distance = 0, aff_impact = Fin (18 / 10) \<rparr>],
             imp_explanation = [Txt ''Thanksgiving (increased sales)''] \<rparr>"
    unfolding getHolidayImpactFactor_def eng Let_def
    by (simp only: option.case aff combined_thanksgiving expl)
  with blended_thanksgiving_value show ?thesis by simp
qed

lemma thanksgiving_2025: "calculateHolidayDate thanksgiving 2025 = Some (newDate 2025 10 27)"
  by code_simp

lemma year_thanksgiving_2025: "getFullYear (newDate 2025 10 27) = 2025"
  by code_simp

theorem thanksgiving_day_factor_witness:
  "calculateHolidayDate thanksgiving (getFullYear (newDate 2025 10 27))
     = Some (newDate 2025 10 27)
   \<and> newDate 2025 10 27 \<le> newDate 2025 10 27
   \<and> newDate 2025 10 27 < newDate 2025 10 27 + msPerDay
   \<and> imp_factor (getHolidayImpactFactor (HolidayEngine [thanksgiving]) (newDate 2025 10 27) None)
       = Fin (1 + (16 / 25) / sqrt (4 / 5))"
proof -
  have h1: "calculateHolidayDate thanksgiving (getFullYear (newDate 2025 10 27))
     = Some (newDate 2025 10 27)"
    by (simp only: year_thanksgiving_2025 thanksgiving_2025)
  have h2: "newDate 2025 10 27 \<le> newDate 2025 10 27" by simp
  have h3: "newDate 2025 10 27 < newDate 2025 10 27 + msPerDay" by (simp add: msPerDay_def)
  show ?thesis
    using thanksgiving_day_factor [OF h1 h2 h3] h1 h3 by simp
qed

lemma thanksgiving_engine_2025:
  "findNearbyHolidays (newDate 2025 10 27) (getHolidaysForYear (HolidayEngine [thanksgiving]) 2025)
     = [\<lparr> aff_holiday = thanksgiving, aff_distance = 0, aff_impact = Fin (18 / 10) \<rparr>]"
  by code_simp

text \<open>
  Thursday 27 November 2025 is the fourth Thursday of November 2025; there the factor
  is not \<open>1.8\<close>.
\<close>

theorem thanksgiving_2025_counterexample:
  "calculateHolidayDate thanksgiving 2025 = Some (newDate 2025 10 27)
   \<and> imp_factor (getHolidayImpactFactor (HolidayEngine [thanksgiving]) (newDate 2025 10 27) None)
       \<noteq> Fin (18 / 10)"
proof -
  have f: "imp_factor (getHolidayImpactFactor (HolidayEngine [thanksgiving])
             (newDate 2025 10 27) None) = Fin (1 + (16 / 25) / sqrt (4 / 5))"
    unfolding getHolidayImpactFactor_def Let_def
    by (simp only: option.case year_thanksgiving_2025 thanksgiving_engine_2025
        combined_thanksgiving HolidayImpact.simps)
  have "1 + (16 / 25) / sqrt (4 / 5 :: real) \<noteq> 18 / 10"
    using blended_thanksgiving_value by simp
  with f thanksgiving_2025 show ?thesis by simp
qed

subsection \<open>A rule without a window\<close>

text \<open>
  The clamp does its work whenever every impact is a number, which \<open>nearbyHoliday\<close>
  guarantees for a rule with \<open>daysBefore\<close> or \<open>daysAfter\<close> other than zero.
\<close>

lemma combined_fold_finite:
  assumes "\<forall>a \<in> set xs. \<exists>v. aff_impact a = Fin v"
  shows "\<exists>c w. foldl (\<lambda>(combinedFactor, totalWeight) a.
                       (jplus combinedFactor
                          (jtimes (jminus (aff_impact a) (Fin 1))
                             (jabs (jminus (aff_impact a) (Fin 1)))),
                        jplus totalWeight (jabs (jminus (aff_impact a) (Fin 1)))))
                    (Fin c0, Fin w0) xs = (Fin c, Fin w)"
  using assms
proof (induction xs arbitrary: c0 w0)
  case Nil
  then show ?case by simp
next
  case (Cons a xs)
  then obtain v where v: "aff_impact a = Fin v" by auto
  show ?case using Cons.IH [of "c0 + (v - 1) * \<bar>v - 1\<bar>" "w0 + \<bar>v - 1\<bar>"] Cons.prems
    by (simp add: v)
qed

lemma clamp_finite: "\<exists>f. jmax (Fin (1 / 10)) (jmin (Fin 5) (Fin x)) = Fin f \<and> 1 / 10 \<le> f \<and> f \<le> 5"
  by (simp add: min_def max_def)

lemma calculateCombinedImpact_bounds:
  assumes "\<forall>a \<in> set affectedHolidays. \<exists>v. aff_impact a = Fin v"
  shows "\<exists>f. calculateCombinedImpact affectedHolidays = Fin f \<and> 1 / 10 \<le> f \<and> f \<le> 5"
proof (cases "affectedHolidays = []")
  case True
  then show ?thesis by (simp add: calculateCombinedImpact_def)
next
  case False
  obtain c w where cw: "foldl (\<lambda>(combinedFactor, totalWeight) a.
                       (jplus combinedFactor
                          (jtimes (jminus (aff_impact a) (Fin 1))
                             (jabs (jminus (aff_impact a) (Fin 1)))),
                        jplus totalWeight (jabs (jminus (aff_impact a) (Fin 1)))))
                    (Fin 1, Fin 0) affectedHolidays = (Fin c, Fin w)"
    using combined_fold_finite [OF assms, of 1 0] by blast
  have "calculateCombinedImpact affectedHolidays =
      jmax (Fin (1 / 10)) (jmin (Fin 5) (Fin (if w > 0 then 1 + (c - 1) / sqrt w else c)))"
    using False by (simp add: calculateCombinedImpact_def Let_def cw)
  then show ?thesis using clamp_finite by simp
qed

lemma nearbyHoliday_finite:
  assumes "nearbyHoliday date instance = Some a"
      and "max (hol_daysBefore (inst_holiday instance)) (hol_daysAfter (inst_holiday instance)) \<noteq> 0"
  shows "\<exists>v. aff_impact a = Fin v"
  using assms by (auto simp: nearbyHoliday_def Let_def split: if_splits)

lemma combined_nan:
  "calculateCombinedImpact [\<lparr> aff_holiday = h, aff_distance = d, aff_impact = NaN \<rparr>] = NaN"
  by (simp add: calculateCombinedImpact_def Let_def)

lemma year_mlk_2025: "getFullYear (newDate 2025 0 20) = 2025"
  by code_simp

lemma default_engine_mlk_2025:
  "findNearbyHolidays (newDate 2025 0 20) (getHolidaysForYear (HolidayEngine []) 2025) =
     [\<lparr> aff_holiday = getDefaultHolidays ! 1, aff_distance = 0, aff_impact = NaN \<rparr>]"
  by code_simp

text \<open>
  C4. The default rules on Monday 20 January 2025, Martin Luther King Jr. Day: the rule
  has \<open>daysBefore = daysAfter = 0\<close>, so \<^verbatim>\<open>distance / maxDistance\<close> is \<^verbatim>\<open>0 / 0\<close>, the impact is
  \<^verbatim>\<open>NaN\<close>, \<^verbatim>\<open>totalWeight > 0\<close> is false, and \<^verbatim>\<open>Math.max(0.1, Math.min(5.0, NaN))\<close> is \<^verbatim>\<open>NaN\<close>:
  the factor returned is not a number of the interval from \<open>0.1\<close> to \<open>5\<close>.
\<close>

theorem zero_window_factor_nan:
  "imp_factor (getHolidayImpactFactor (HolidayEngine []) (newDate 2025 0 20) None) = NaN"
  unfolding getHolidayImpactFactor_def Let_def
  by (simp only: option.case year_mlk_2025 default_engine_mlk_2025 combined_nan
      HolidayImpact.simps)

section \<open>Properties of the plan generator\<close>

lemma groupDataByItem_lookup:
  "groupDataByItem data k =
     (if filter (\<lambda>r. rec_itemNumber r = k) data = [] then None
      else Some (filter (\<lambda>r. rec_itemNumber r = k) data))"
proof (induction data rule: rev_induct)
  case Nil
  then show ?case by (simp add: groupDataByItem_def)
next
  case (snoc x xs)
  have step: "groupDataByItem (xs @ [x]) =
      (let groups = groupDataByItem xs;
           existing = (case groups (rec_itemNumber x) of None \<Rightarrow> [] | Some found \<Rightarrow> found)
       in groups (rec_itemNumber x \<mapsto> existing @ [x]))"
    by (simp add: groupDataByItem_def Let_def)
  show ?case
    unfolding step Let_def using snoc by (auto split: option.splits if_splits)
qed

lemma set_map_filter: "set (List.map_filter f xs) = {y. \<exists>x \<in> set xs. f x = Some y}"
  by (induction xs) (auto simp: List.map_filter_simps split: option.splits)

lemma forecast_no_records:
  assumes "\<forall>r \<in> set historicalData. rec_itemNumber r \<noteq> itemNumber"
  shows "forecastDemand this now historicalData targetDate growthRate itemNumber
           = createEmptyForecast targetDate"
proof -
  have "filter (\<lambda>d. rec_itemNumber d = itemNumber) historicalData = []"
    using assms by (simp add: filter_empty_conv)
  then show ?thesis by (simp add: forecastDemand_def)
qed


text \<open>
  C9. An item that is selected, has an active configuration and has no sales record:
  \<^verbatim>\<open>forecastDemand\<close> returns forecast \<open>0\<close> and confidence \<open>0\<close> for it, and the plan contains
  the empty plan item made for it, with nothing to produce today and the reasoning
  "No historical data available".
\<close>

theorem no_data_item_in_plan:
  assumes sel: "itemNumber \<in> set selectedItems"
      and cfg: "itemConfigs itemNumber = Some config"
      and act: "cfg_isActive config"
      and nodata: "\<forall>r \<in> set data. rec_itemNumber r \<noteq> itemNumber"
  shows "fr_forecast (forecastDemand forecaster now data targetDate growthRate itemNumber) = Fin 0
       \<and> fr_confidence (forecastDemand forecaster now data targetDate growthRate itemNumber) = 0
       \<and> createEmptyPlanItem itemNumber config (dr_start dateRange)
           \<in> set (plan_items (generatePlan generator now data dateRange selectedItems itemConfigs
                                 globalSettings holidays))
       \<and> pi_itemNumber (createEmptyPlanItem itemNumber config (dr_start dateRange)) = itemNumber
       \<and> dec_produceToday (pi_batchDecision
             (createEmptyPlanItem itemNumber config (dr_start dateRange))) = 0
       \<and> dec_reasoning (pi_batchDecision
             (createEmptyPlanItem itemNumber config (dr_start dateRange)))
           = [Txt ''No historical data available'']"
proof -
  have fc: "forecastDemand forecaster now data targetDate growthRate itemNumber
      = createEmptyForecast targetDate"
    by (rule forecast_no_records [OF nodata])
  have "filter (\<lambda>r. rec_itemNumber r = itemNumber) (filterData data dateRange selectedItems) = []"
    using nodata by (auto simp: filterData_def filter_empty_conv)
  then have grp: "groupDataByItem (filterData data dateRange selectedItems) itemNumber = None"
    by (simp add: groupDataByItem_lookup)
  have item: "planItemFor generator now (groupDataByItem (filterData data dateRange selectedItems))
        itemConfigs dateRange globalSettings itemNumber
      = Some (createEmptyPlanItem itemNumber config (dr_start dateRange))"
    using cfg act grp by (simp add: planItemFor_def generatePlanItem_def)
  have mem: "createEmptyPlanItem itemNumber config (dr_start dateRange)
           \<in> set (plan_items (generatePlan generator now data dateRange selectedItems itemConfigs
                                 globalSettings holidays))"
    using sel item by (auto simp: generatePlan_def Let_def set_map_filter)
  show ?thesis
    using fc mem by (simp add: createEmptyForecast_def createEmptyPlanItem_def)
qed

theorem no_data_item_in_plan_witness:
  "''3003'' \<in> set [''1001'', ''3003'']
   \<and> planConfigs ''3003'' = Some (planConfig ''3003'')
   \<and> cfg_isActive (planConfig ''3003'')
   \<and> map rec_itemNumber planData = [''1001'', ''1001'']
   \<and> createEmptyPlanItem ''3003'' (planConfig ''3003'') (dr_start planRange)
       \<in> set (plan_items (generatePlan planGenerator clockApril10 planData planRange
                    [''1001'', ''3003''] planConfigs defaultGlobalSettings [thanksgiving]))
   \<and> fr_forecast (forecastDemand (pg_forecaster planGenerator) clockApril10 planData
         (dr_start planRange) 0 ''3003'') = Fin 0"
proof -
  have h1: "''3003'' \<in> set [''1001'', ''3003'']" by simp
  have h2: "planConfigs ''3003'' = Some (planConfig ''3003'')" by (simp add: planConfigs_def)
  have h3: "cfg_isActive (planConfig ''3003'')" by (simp add: planConfig_def)
  have h4: "\<forall>r \<in> set planData. rec_itemNumber r \<noteq> ''3003''"
    by (simp add: planData_def mkSales_def)
  have h5: "map rec_itemNumber planData = [''1001'', ''1001'']"
    by (simp add: planData_def mkSales_def)
  show ?thesis
    using no_data_item_in_plan [where itemNumber = "''3003''"
        and selectedItems = "[''1001'', ''3003'']" and itemConfigs = planConfigs
        and config = "planConfig ''3003''" and data = planData
        and forecaster = "pg_forecaster planGenerator" and now = clockApril10
        and targetDate = "dr_start planRange" and growthRate = 0 and dateRange = planRange
        and generator = planGenerator and globalSettings = defaultGlobalSettings
        and holidays = "[thanksgiving]"] h1 h2 h3 h4 h5
    by simp
qed

subsection \<open>The wall clock\<close>

lemma getRecentData_same:
  assumes w: "sameRecentWindows now1 now2 data" and sub: "set xs \<subseteq> set data"
      and d: "days \<in> {14, 28, 30}"
  shows "getRecentData now1 xs days = getRecentData now2 xs days"
proof -
  have "\<forall>r \<in> set xs. (rec_calendarDate r \<ge> setDate now1 (getDate now1 - days))
                     = (rec_calendarDate r \<ge> setDate now2 (getDate now2 - days))"
    using w sub d by (auto simp: sameRecentWindows_def list_all_iff)
  then have "filter (\<lambda>r. rec_calendarDate r \<ge> setDate now1 (getDate now1 - days)) xs
           = filter (\<lambda>r. rec_calendarDate r \<ge> setDate now2 (getDate now2 - days)) xs"
    by (intro filter_cong) auto
  then show ?thesis by (simp add: getRecentData_def)
qed

lemma forecastDemand_same:
  assumes w: "sameRecentWindows now1 now2 data" and sub: "set xs \<subseteq> set data"
  shows "forecastDemand fc now1 xs targetDate growthRate itemNumber
       = forecastDemand fc now2 xs targetDate growthRate itemNumber"
proof -
  define itemData where "itemData = filter (\<lambda>d. rec_itemNumber d = itemNumber) xs"
  have isub: "set itemData \<subseteq> set data" using sub by (auto simp: itemData_def)
  have r30: "getRecentData now1 itemData 30 = getRecentData now2 itemData 30"
    by (rule getRecentData_same [OF w isub]) simp
  have r28: "getRecentData now1 itemData 28 = getRecentData now2 itemData 28"
    by (rule getRecentData_same [OF w isub]) simp
  have r14: "getRecentData now1 itemData 14 = getRecentData now2 itemData 14"
    by (rule getRecentData_same [OF w isub]) simp
  have base: "calculateBaseDemand now1 itemData targetDate
            = calculateBaseDemand now2 itemData targetDate"
    by (simp add: calculateBaseDemand_def Let_def r30)
  have trend: "calculateTrendFactor now1 itemData targetDate
             = calculateTrendFactor now2 itemData targetDate"
    by (simp add: calculateTrendFactor_def Let_def r28)
  have factors: "calculateForecastFactors fc now1 targetDate itemData
               = calculateForecastFactors fc now2 targetDate itemData"
    by (simp add: calculateForecastFactors_def Let_def trend)
  have conf: "\<And>f. calculateConfidence now1 itemData targetDate f
                = calculateConfidence now2 itemData targetDate f"
    by (simp add: calculateConfidence_def Let_def r14)
  show ?thesis
    unfolding forecastDemand_def itemData_def [symmetric] Let_def
    by (simp only: base factors conf)
qed

lemma forecastMultiDay_same:
  assumes w: "sameRecentWindows now1 now2 data" and sub: "set xs \<subseteq> set data"
  shows "forecastMultiDay fc now1 xs startDate days growthRate itemNumber
       = forecastMultiDay fc now2 xs startDate days growthRate itemNumber"
  unfolding forecastMultiDay_def Let_def
  by (simp only: forecastDemand_same [OF w sub])

lemma generatePlanItem_same:
  assumes w: "sameRecentWindows now1 now2 data" and sub: "set xs \<subseteq> set data"
  shows "generatePlanItem this now1 itemNumber xs config planDate globalSettings
       = generatePlanItem this now2 itemNumber xs config planDate globalSettings"
  unfolding generatePlanItem_def Let_def
  by (simp only: forecastDemand_same [OF w sub] forecastMultiDay_same [OF w sub])

lemma planItemFor_same:
  assumes w: "sameRecentWindows now1 now2 data"
  shows "planItemFor this now1 (groupDataByItem (filterData data dateRange selectedItems))
           itemConfigs dateRange globalSettings itemNumber
       = planItemFor this now2 (groupDataByItem (filterData data dateRange selectedItems))
           itemConfigs dateRange globalSettings itemNumber"
proof -
  define xs where "xs = (case groupDataByItem (filterData data dateRange selectedItems) itemNumber
                          of None \<Rightarrow> [] | Some found \<Rightarrow> found)"
  have "set xs \<subseteq> set data"
    by (auto simp: xs_def groupDataByItem_lookup filterData_def)
  then have same: "\<And>config. generatePlanItem this now1 itemNumber xs config (dr_start dateRange) globalSettings
       = generatePlanItem this now2 itemNumber xs config (dr_start dateRange) globalSettings"
    by (rule generatePlanItem_same [OF w])
  show ?thesis
    unfolding planItemFor_def xs_def [symmetric] Let_def by (simp only: same)
qed


text \<open>
  C8. Two runs of the plan generation on the same inputs, at clock readings that put the
  same sales records into the 14, 28 and 30 day windows of \<^verbatim>\<open>getRecentData\<close> (two runs at
  the same time, for one), return the same plan: the same date, items and summary, and
  the same metadata but for the two fields computed from the clock, \<^verbatim>\<open>generatedAt\<close> and
  \<^verbatim>\<open>fiscalYearStart\<close>. Forecasting reads the clock through \<^verbatim>\<open>getRecentData\<close> only; the batch
  optimizer does not read it.
\<close>

theorem generatePlan_same_windows:
  assumes w: "sameRecentWindows now1 now2 data"
  shows "plan_date (generatePlan this now1 data dateRange selectedItems itemConfigs globalSettings holidays)
       = plan_date (generatePlan this now2 data dateRange selectedItems itemConfigs globalSettings holidays)
     \<and> plan_items (generatePlan this now1 data dateRange selectedItems itemConfigs globalSettings holidays)
       = plan_items (generatePlan this now2 data dateRange selectedItems itemConfigs globalSettings holidays)
     \<and> plan_summary (generatePlan this now1 data dateRange selectedItems itemConfigs globalSettings holidays)
       = plan_summary (generatePlan this now2 data dateRange selectedItems itemConfigs globalSettings holidays)
     \<and> plan_metadata (generatePlan this now1 data dateRange selectedItems itemConfigs globalSettings holidays)
         \<lparr> meta_generatedAt := 0, meta_fiscalYearStart := 0 \<rparr>
       = plan_metadata (generatePlan this now2 data dateRange selectedItems itemConfigs globalSettings holidays)
         \<lparr> meta_generatedAt := 0, meta_fiscalYearStart := 0 \<rparr>"
proof -
  have "planItemFor this now1 (groupDataByItem (filterData data dateRange selectedItems))
           itemConfigs dateRange globalSettings
      = planItemFor this now2 (groupDataByItem (filterData data dateRange selectedItems))
           itemConfigs dateRange globalSettings"
    by (rule ext) (rule planItemFor_same [OF w])
  then show ?thesis
    by (simp add: generatePlan_def Let_def generateMetadata_def)
qed

lemma sameRecentWindows_same_clock: "sameRecentWindows now now data"
  by (simp add: sameRecentWindows_def list_all_iff)

lemma april_windows: "sameRecentWindows clockApril10 clockApril11 planData"
  by code_simp

lemma april_clocks_differ: "clockApril10 \<noteq> clockApril11"
  by code_simp

theorem generatePlan_same_windows_witness:
  "sameRecentWindows clockApril10 clockApril11 planData
   \<and> clockApril10 \<noteq> clockApril11
   \<and> plan_items (generatePlan planGenerator clockApril10 planData planRange [''1001'']
         planConfigs defaultGlobalSettings [thanksgiving])
     = plan_items (generatePlan planGenerator clockApril11 planData planRange [''1001'']
         planConfigs defaultGlobalSettings [thanksgiving])"
  using generatePlan_same_windows [OF april_windows, of planGenerator planRange "[''1001'']"
      planConfigs defaultGlobalSettings "[thanksgiving]"] april_windows april_clocks_differ
  by simp

lemma plan_filterData: "filterData planData planRange [''1001''] = planData"
  by code_simp

lemma plan_group: "groupDataByItem planData ''1001'' = Some planData"
  by code_simp

lemma plan_itemData: "filter (\<lambda>d. rec_itemNumber d = ''1001'') planData = planData"
  by code_simp

lemma plan_sameDay: "getSameDayOfWeekData planData (dr_start planRange) = []"
  by code_simp

lemma plan_recent_april: "getRecentData clockApril10 planData 30 = [mkSales ''1001'' (newDate 2025 2 25) 20]"
  by code_simp

lemma plan_recent_june: "getRecentData clockJune1 planData 30 = []"
  by code_simp

lemma plan_lastYear: "getSamePeriodLastYear planData (dr_start planRange) = []"
  by code_simp

lemma plan_seasonal: "getSeasonalFactor (pg_forecaster planGenerator) (dr_start planRange) = 1"
  by code_simp

lemma plan_dayOfWeek: "getDayOfWeekFactor (pg_forecaster planGenerator) (dr_start planRange) = 9 / 10"
  by code_simp

lemma plan_no_holiday: "findNearbyHolidays (dr_start planRange)
   (getHolidaysForYear (fc_holidayEngine (pg_forecaster planGenerator))
      (getFullYear (dr_start planRange))) = []"
  by code_simp

lemma plan_weighted: "calculateWeightedAverage [mkSales ''1001'' (newDate 2025 2 25) 20] = 20"
  by code_simp

lemma plan_length: "length planData = 2"
  by (simp add: planData_def)

lemma plan_nonempty: "planData \<noteq> []"
  by (simp add: planData_def)

lemma plan_total: "foldl (\<lambda>sum d. sum + rec_currentYearUnits d) 0 planData = 30"
  by (simp add: planData_def mkSales_def)

lemma plan_base_april: "calculateBaseDemand clockApril10 planData (dr_start planRange) = 20"
  by (simp add: calculateBaseDemand_def Let_def plan_length plan_sameDay plan_recent_april
      plan_weighted)

lemma plan_base_june: "calculateBaseDemand clockJune1 planData (dr_start planRange) = 15"
  by (simp add: calculateBaseDemand_def Let_def plan_length plan_sameDay plan_recent_june
      plan_lastYear plan_total)

lemma plan_factors:
  "calculateForecastFactors (pg_forecaster planGenerator) now (dr_start planRange) planData =
     \<lparr> ff_seasonal = 1, ff_dayOfWeek = 9 / 10, ff_holiday = Fin 1, ff_trend = 1, ff_growth = 0 \<rparr>"
  by (simp add: calculateForecastFactors_def Let_def plan_seasonal plan_dayOfWeek
      getHolidayImpactFactor_def plan_no_holiday calculateCombinedImpact_def
      calculateTrendFactor_def plan_length)

lemma plan_forecast_april:
  "fr_forecast (forecastDemand (pg_forecaster planGenerator) clockApril10 planData
      (dr_start planRange) 0 ''1001'') = Fin 18"
  by (simp add: forecastDemand_def Let_def plan_itemData plan_nonempty plan_base_april plan_factors)

lemma plan_forecast_june:
  "fr_forecast (forecastDemand (pg_forecaster planGenerator) clockJune1 planData
      (dr_start planRange) 0 ''1001'') = Fin (27 / 2)"
  by (simp add: forecastDemand_def Let_def plan_itemData plan_nonempty plan_base_june plan_factors)

lemma plan_todayNeed:
  "map pi_todayNeed (plan_items (generatePlan planGenerator now planData planRange [''1001'']
      planConfigs defaultGlobalSettings [thanksgiving]))
   = [fr_forecast (forecastDemand (pg_forecaster planGenerator) now planData
        (dr_start planRange) 0 ''1001'')]"
  by (simp add: generatePlan_def Let_def plan_filterData planItemFor_def
      plan_group planConfigs_def planConfig_def generatePlanItem_def plan_nonempty)


text \<open>
  The same inputs at two clock readings, 10 April and 1 June 2025. No record falls on
  the weekday of the plan date. In April the record of 25 March lies within the last 30
  days and the base demand is its 20 units, today's need 18; in June no record does,
  the base demand is the average of all records, 15 units, and today's need 13.5.
\<close>

theorem wall_clock_counterexample:
  "plan_items (generatePlan planGenerator clockApril10 planData planRange [''1001'']
      planConfigs defaultGlobalSettings [thanksgiving])
   \<noteq> plan_items (generatePlan planGenerator clockJune1 planData planRange [''1001'']
      planConfigs defaultGlobalSettings [thanksgiving])"
proof
  assume "plan_items (generatePlan planGenerator clockApril10 planData planRange [''1001'']
      planConfigs defaultGlobalSettings [thanksgiving])
   = plan_items (generatePlan planGenerator clockJune1 planData planRange [''1001'']
      planConfigs defaultGlobalSettings [thanksgiving])"
  then have "map pi_todayNeed (plan_items (generatePlan planGenerator clockApril10 planData
        planRange [''1001''] planConfigs defaultGlobalSettings [thanksgiving]))
    = map pi_todayNeed (plan_items (generatePlan planGenerator clockJune1 planData
        planRange [''1001''] planConfigs defaultGlobalSettings [thanksgiving]))"
    by simp
  then show False
    by (simp add: plan_todayNeed plan_forecast_april plan_forecast_june)
qed

end
